theory Spec2Isabelle
  imports Complex_Main
begin

section \<open>Data model of the shape kd-tree (skdtree.cpp)\<close>

text \<open>
  The C++ type \<open>Float\<close> is modelled by \<^typ>\<open>real\<close>: comparisons, \<open>max\<close>, \<open>min\<close>,
  \<open>abs\<close> and products are the exact ones, and the infinities and NaN have no
  counterpart, so rays have finite coordinates and finite intervals here. A query
  that finds nothing yields \<open>None\<close> where the source leaves the distance at
  infinity.
\<close>

datatype Vec3 = Vec3 (vx: real) (vy: real) (vz: real)

text \<open>\<open>v[axis]\<close> for \<open>axis\<close> in 0, 1, 2.\<close>

definition axisOf :: "Vec3 \<Rightarrow> nat \<Rightarrow> real" where
  "axisOf v a = (if a = 0 then vx v else if a = 1 then vy v else vz v)"

record AABB =
  aabb_min :: Vec3
  aabb_max :: Vec3

record Ray =
  ray_o :: Vec3
  ray_d :: Vec3
  ray_dRcp :: Vec3
  ray_mint :: real
  ray_maxt :: real

text \<open>
  A triangle mesh as the build loop reads it: the vertex index triples, the vertex
  positions and the optional texture coordinates.
\<close>

record TriMesh =
  triangles :: "(nat \<times> nat \<times> nat) list"
  vertexPositions :: "Vec3 list"
  vertexTexcoords :: "(real \<times> real) list option"

definition getTriangleCount :: "TriMesh \<Rightarrow> nat" where
  "getTriangleCount mesh = length (triangles mesh)"

text \<open>
  A shape is an external object. \<open>sh_compound\<close> is \<open>isCompound()\<close>, \<open>sh_mesh\<close> is
  the mesh when the shape's class derives from \<open>TriMesh\<close>, and \<open>sh_rayIntersect\<close> is
  the shape's own virtual single-ray test \<open>rayIntersect(ray, mint, maxt, t, temp)\<close>:
  on a hit it yields the distance and the bytes it leaves in the scratch buffer.
\<close>

record Shape =
  sh_compound :: bool
  sh_mesh :: "TriMesh option"
  sh_rayIntersect :: "Ray \<Rightarrow> real \<Rightarrow> real \<Rightarrow> (real \<times> nat list) option"

text \<open>
  One record of the accelerator table. \<open>ta_k\<close> is the field \<open>k\<close>, \<open>ta_coeffs\<close> the
  precomputed floating point coefficients that \<open>TriAccel::load\<close> derives from the
  three vertices.
\<close>

record TriAccel =
  ta_k :: nat
  ta_coeffs :: "real list"
  shapeIndex :: nat
  primIndex :: nat

text \<open>
  Modelled from the spec: the sentinel "not-a-triangle" marker \<open>KNoTriangleFlag\<close>.
  Its declaration (triaccel.h) is not among the sources; the value is the all-ones
  32-bit pattern, and no statement below depends on which value it is.
\<close>

definition KNoTriangleFlag :: nat where
  "KNoTriangleFlag = 4294967295"

text \<open>\<open>memset(&m_triAccel[idx], 0, sizeof(TriAccel))\<close>: the all-zero record.\<close>

definition zeroTriAccel :: TriAccel where
  "zeroTriAccel = \<lparr>ta_k = 0, ta_coeffs = [], shapeIndex = 0, primIndex = 0\<rparr>"

text \<open>
  Tree nodes as the traversals read them: a leaf carries its \<open>[start, end)\<close> range
  into the index buffer, an inner node its split axis, split coordinate, left and
  right child.
\<close>

datatype KDNode =
    Leaf nat nat
  | Inner nat real KDNode KDNode

text \<open>
  The kd-tree object. \<open>m_triAccel\<close> is \<open>None\<close> for the \<open>NULL\<close> pointer and
  otherwise the allocated array, whose cells are \<open>None\<close> until they are written.
  \<open>m_nodes\<close> is \<open>None\<close> before the tree is built.
\<close>

record ShapeKDTree =
  m_shapeMap :: "nat list"
  m_triangleFlag :: "bool list"
  m_shapes :: "Shape list"
  m_triAccel :: "TriAccel option list option"
  m_nodes :: "KDNode option"
  m_indices :: "nat list"
  m_aabb :: AABB

datatype error = AssertionFailed | CompoundShapeError | OutOfBounds | InvalidCast | AxisError
  | IndexWrap | NonFiniteValue

text \<open>
  Modelled from the spec: the index types \<open>SizeType\<close> and \<open>IndexType\<close>. They are declared
  in the kd-tree base header, which is not among the sources: unsigned integers of
  32 bits, the width of the all-ones marker \<open>KNoTriangleFlag\<close> that is stored in an
  index field. A conversion to \<open>SizeType\<close> keeps the value modulo \<open>2^32\<close>, and so does
  an addition of two \<open>SizeType\<close> values.
\<close>

definition toSizeType :: "nat \<Rightarrow> nat" where
  "toSizeType n = n mod 4294967296"

subsection \<open>Constructor, addShape\<close>

definition emptyAABB :: AABB where
  "emptyAABB = \<lparr>aabb_min = Vec3 0 0 0, aabb_max = Vec3 0 0 0\<rparr>"

definition newShapeKDTree :: ShapeKDTree where
  "newShapeKDTree = \<lparr>m_shapeMap = [0], m_triangleFlag = [], m_shapes = [],
     m_triAccel = None, m_nodes = None, m_indices = [], m_aabb = emptyAABB\<rparr>"

definition isBuilt :: "ShapeKDTree \<Rightarrow> bool" where
  "isBuilt kd = (m_nodes kd \<noteq> None)"

definition addShape :: "Shape \<Rightarrow> ShapeKDTree \<Rightarrow> error + ShapeKDTree" where
  "addShape shape kd =
    (if isBuilt kd then Inl AssertionFailed
     else if sh_compound shape then Inl CompoundShapeError
     else (case sh_mesh shape of
         Some mesh \<Rightarrow>
           Inr (kd\<lparr>m_shapeMap := m_shapeMap kd @ [toSizeType (getTriangleCount mesh)],
                   m_triangleFlag := m_triangleFlag kd @ [True],
                   m_shapes := m_shapes kd @ [shape]\<rparr>)
       | None \<Rightarrow>
           Inr (kd\<lparr>m_shapeMap := m_shapeMap kd @ [1],
                   m_triangleFlag := m_triangleFlag kd @ [False],
                   m_shapes := m_shapes kd @ [shape]\<rparr>)))"

text \<open>Registering a sequence of shapes, stopping at the first failure.\<close>

fun addShapes :: "Shape list \<Rightarrow> ShapeKDTree \<Rightarrow> error + ShapeKDTree" where
  "addShapes [] kd = Inr kd"
| "addShapes (s # ss) kd =
     (case addShape s kd of Inl e \<Rightarrow> Inl e | Inr kd' \<Rightarrow> addShapes ss kd')"

text \<open>
  The number of primitives a shape contributes: the triangle count of a mesh, 1 for
  any other shape. \<open>addShape\<close> records it converted to \<open>SizeType\<close>.
\<close>

definition contribution :: "Shape \<Rightarrow> nat" where
  "contribution shape =
     (case sh_mesh shape of Some mesh \<Rightarrow> getTriangleCount mesh | None \<Rightarrow> 1)"

subsection \<open>build\<close>

text \<open>
  \<open>for (size_t i=1; i<m_shapeMap.size(); ++i) m_shapeMap[i] += m_shapeMap[i-1];\<close>
  The entries are of type \<open>SizeType\<close>, so the sum wraps.
\<close>

function shapeMapLoop :: "nat \<Rightarrow> nat list \<Rightarrow> nat list" where
  "shapeMapLoop i m =
     (if i < length m then shapeMapLoop (i + 1) (m[i := toSizeType (m ! i + m ! (i - 1))])
      else m)"
  by pat_completeness auto
termination
  by (relation "measure (\<lambda>(i, m). length m - i)") auto

declare shapeMapLoop.simps [simp del]

text \<open>
  \<open>getPrimitiveCount()\<close> is declared in the header: the last entry of the shape map.
\<close>

definition getPrimitiveCount :: "ShapeKDTree \<Rightarrow> nat" where
  "getPrimitiveCount kd = last (m_shapeMap kd)"

text \<open>
  The record of triangle \<open>j\<close> of mesh \<open>i\<close>. \<open>load\<close> stands for \<open>TriAccel::load\<close>
  (triaccel.h), which yields \<open>k\<close> and the coefficients from the three vertices. The
  source reads the triangle and its three vertex positions without checks; a read
  beyond the triangle list or the vertex positions is the error \<open>OutOfBounds\<close>.
\<close>

definition meshRecord ::
  "(Vec3 \<Rightarrow> Vec3 \<Rightarrow> Vec3 \<Rightarrow> nat \<times> real list) \<Rightarrow> TriMesh \<Rightarrow> nat \<Rightarrow> nat \<Rightarrow> error + TriAccel" where
  "meshRecord load mesh i j =
     (if j < length (triangles mesh) then
        (case triangles mesh ! j of (i0, i1, i2) \<Rightarrow>
           if i0 < length (vertexPositions mesh) \<and> i1 < length (vertexPositions mesh)
              \<and> i2 < length (vertexPositions mesh)
           then (case load (vertexPositions mesh ! i0) (vertexPositions mesh ! i1)
                           (vertexPositions mesh ! i2) of (k, cs) \<Rightarrow>
                   Inr \<lparr>ta_k = k, ta_coeffs = cs, shapeIndex = i, primIndex = j\<rparr>)
           else Inl OutOfBounds)
      else Inl OutOfBounds)"

definition sentinelRecord :: "nat \<Rightarrow> TriAccel" where
  "sentinelRecord i = zeroTriAccel\<lparr>shapeIndex := i, ta_k := KNoTriangleFlag\<rparr>"

text \<open>
  The inner loop of \<open>build\<close> over the triangles \<open>j\<close> of mesh \<open>i\<close>. A write beyond the
  allocated table is the error \<open>OutOfBounds\<close>. The counter \<open>j\<close> is an \<open>IndexType\<close> that
  is compared with a \<open>size_t\<close>: when it would reach \<open>2^32\<close> it wraps to 0 and the loop
  does not end, which is the outcome \<open>IndexWrap\<close>.
\<close>

function triangleLoop ::
  "(Vec3 \<Rightarrow> Vec3 \<Rightarrow> Vec3 \<Rightarrow> nat \<times> real list) \<Rightarrow> TriMesh \<Rightarrow> nat \<Rightarrow> nat \<Rightarrow>
   nat \<Rightarrow> TriAccel option list \<Rightarrow> error + (nat \<times> TriAccel option list)" where
  "triangleLoop load mesh i j idx tab =
     (if 4294967296 \<le> j then Inl IndexWrap
      else if j < getTriangleCount mesh then
        (if idx < length tab
         then (case meshRecord load mesh i j of
                 Inl e \<Rightarrow> Inl e
               | Inr r \<Rightarrow> triangleLoop load mesh i (j + 1) (idx + 1) (tab[idx := Some r]))
         else Inl OutOfBounds)
      else Inr (idx, tab))"
  by pat_completeness auto
termination
  by (relation "measure (\<lambda>(load, mesh, i, j, idx, tab). getTriangleCount mesh - j)") auto

declare triangleLoop.simps [simp del]

text \<open>
  The outer loop of \<open>build\<close> over the registered shapes. The unchecked
  \<open>static_cast\<close> of a flagged shape that is no mesh is the error \<open>InvalidCast\<close>. The
  counter \<open>i\<close> is an \<open>IndexType\<close> compared with \<open>m_shapes.size()\<close>: with \<open>2^32\<close> or more
  shapes it wraps to 0 before it reaches the size and the loop does not end, which
  is the outcome \<open>IndexWrap\<close>. The counter \<open>idx\<close> stays below the length of the table,
  which is a \<open>SizeType\<close>, and so it does not wrap.
\<close>

function shapeLoop ::
  "(Vec3 \<Rightarrow> Vec3 \<Rightarrow> Vec3 \<Rightarrow> nat \<times> real list) \<Rightarrow> Shape list \<Rightarrow> bool list \<Rightarrow> nat \<Rightarrow>
   nat \<Rightarrow> TriAccel option list \<Rightarrow> error + (nat \<times> TriAccel option list)" where
  "shapeLoop load shapes flags i idx tab =
     (if 4294967296 \<le> i then Inl IndexWrap
      else if i < length shapes then
        (if flags ! i then
           (case sh_mesh (shapes ! i) of
              None \<Rightarrow> Inl InvalidCast
            | Some mesh \<Rightarrow>
                (case triangleLoop load mesh i 0 idx tab of
                   Inl e \<Rightarrow> Inl e
                 | Inr (idx', tab') \<Rightarrow> shapeLoop load shapes flags (i + 1) idx' tab'))
         else
           (if idx < length tab
            then shapeLoop load shapes flags (i + 1) (idx + 1)
                   (tab[idx := Some (sentinelRecord i)])
            else Inl OutOfBounds))
      else Inr (idx, tab))"
  by pat_completeness auto
termination
  by (relation "measure (\<lambda>(load, shapes, flags, i, idx, tab). length shapes - i)") auto

declare shapeLoop.simps [simp del]

text \<open>
  \<open>build\<close>. The external tree builder \<open>buildInternal\<close> is a parameter: from the
  object with its finished shape map it yields the node tree, the index buffer and
  the bounding box. The table is allocated for \<open>primCount\<close> records, the last entry
  of the shape map. The final \<open>KDAssert(idx == primCount)\<close> is the last check.
\<close>

definition build ::
  "(Vec3 \<Rightarrow> Vec3 \<Rightarrow> Vec3 \<Rightarrow> nat \<times> real list) \<Rightarrow>
   (ShapeKDTree \<Rightarrow> KDNode option \<times> nat list \<times> AABB) \<Rightarrow>
   ShapeKDTree \<Rightarrow> error + ShapeKDTree" where
  "build load buildInternal kd =
     (let kd1 = kd\<lparr>m_shapeMap := shapeMapLoop 1 (m_shapeMap kd)\<rparr>;
          (nodes, indices, box) = buildInternal kd1;
          kd2 = kd1\<lparr>m_nodes := nodes, m_indices := indices, m_aabb := box\<rparr>;
          primCount = getPrimitiveCount kd2
      in case shapeLoop load (m_shapes kd2) (m_triangleFlag kd2) 0 0
                (replicate primCount None) of
           Inl e \<Rightarrow> Inl e
         | Inr (idx, tab) \<Rightarrow>
             if idx = primCount then Inr (kd2\<lparr>m_triAccel := Some tab\<rparr>)
             else Inl AssertionFailed)"

subsection \<open>Reference descriptions of what build computes\<close>

text \<open>The running sums \<open>a + x1\<close>, \<open>a + x1 + x2\<close>, ... of a list of counts.\<close>

fun psums :: "nat \<Rightarrow> nat list \<Rightarrow> nat list" where
  "psums a [] = []"
| "psums a (x # xs) = (x + a) # psums (x + a) xs"

text \<open>The same sums taken in \<open>SizeType\<close>.\<close>

fun wpsums :: "nat \<Rightarrow> nat list \<Rightarrow> nat list" where
  "wpsums a [] = []"
| "wpsums a (x # xs) = toSizeType (x + a) # wpsums (toSizeType (x + a)) xs"

text \<open>
  A mesh whose triangles name vertices that exist: the build loop reads no vertex
  beyond the vertex positions.
\<close>

definition meshInBounds :: "TriMesh \<Rightarrow> bool" where
  "meshInBounds mesh =
     list_all (\<lambda>(i0, i1, i2). i0 < length (vertexPositions mesh)
                  \<and> i1 < length (vertexPositions mesh) \<and> i2 < length (vertexPositions mesh))
       (triangles mesh)"

definition shapeInBounds :: "Shape \<Rightarrow> bool" where
  "shapeInBounds s = (case sh_mesh s of Some mesh \<Rightarrow> meshInBounds mesh | None \<Rightarrow> True)"

text \<open>
  The record of triangle \<open>j\<close> of a mesh that is shape \<open>i\<close>, written out field by
  field, and the record of a shape \<open>i\<close> that is no mesh.
\<close>

definition triangleRecord ::
  "(Vec3 \<Rightarrow> Vec3 \<Rightarrow> Vec3 \<Rightarrow> nat \<times> real list) \<Rightarrow> TriMesh \<Rightarrow> nat \<Rightarrow> nat \<Rightarrow> TriAccel" where
  "triangleRecord load mesh i j =
     \<lparr>ta_k = fst (load (vertexPositions mesh ! fst (triangles mesh ! j))
                      (vertexPositions mesh ! fst (snd (triangles mesh ! j)))
                      (vertexPositions mesh ! snd (snd (triangles mesh ! j)))),
      ta_coeffs = snd (load (vertexPositions mesh ! fst (triangles mesh ! j))
                      (vertexPositions mesh ! fst (snd (triangles mesh ! j)))
                      (vertexPositions mesh ! snd (snd (triangles mesh ! j)))),
      shapeIndex = i, primIndex = j\<rparr>"

definition shapeRecords ::
  "(Vec3 \<Rightarrow> Vec3 \<Rightarrow> Vec3 \<Rightarrow> nat \<times> real list) \<Rightarrow> nat \<Rightarrow> Shape \<Rightarrow> TriAccel list" where
  "shapeRecords load i s =
     (case sh_mesh s of
        Some mesh \<Rightarrow> map (triangleRecord load mesh i) [0..<getTriangleCount mesh]
      | None \<Rightarrow> [\<lparr>ta_k = KNoTriangleFlag, ta_coeffs = [], shapeIndex = i, primIndex = 0\<rparr>])"

definition tableOf ::
  "(Vec3 \<Rightarrow> Vec3 \<Rightarrow> Vec3 \<Rightarrow> nat \<times> real list) \<Rightarrow> Shape list \<Rightarrow> TriAccel list" where
  "tableOf load shs = concat (map (\<lambda>k. shapeRecords load k (shs ! k)) [0..<length shs])"

text \<open>
  A mesh of \<open>n\<close> triangles over three vertices, for scenes with more primitives than
  \<open>SizeType\<close> can count.
\<close>

definition bigMesh :: "nat \<Rightarrow> TriMesh" where
  "bigMesh n = \<lparr>triangles = replicate n (0, 1, 2),
     vertexPositions = [Vec3 0 0 0, Vec3 1 0 0, Vec3 0 1 0], vertexTexcoords = None\<rparr>"

definition bigShape :: "nat \<Rightarrow> Shape" where
  "bigShape n = \<lparr>sh_compound = False, sh_mesh = Some (bigMesh n),
     sh_rayIntersect = (\<lambda>ray mint maxt. None)\<rparr>"


subsection \<open>A scene with one mesh of two triangles and one other shape\<close>

definition exampleMesh :: TriMesh where
  "exampleMesh = \<lparr>triangles = [(0, 1, 2), (0, 2, 3)],
     vertexPositions = [Vec3 0 0 0, Vec3 1 0 0, Vec3 1 1 0, Vec3 0 1 0],
     vertexTexcoords = None\<rparr>"

definition meshShape :: Shape where
  "meshShape = \<lparr>sh_compound = False, sh_mesh = Some exampleMesh,
     sh_rayIntersect = (\<lambda>ray mint maxt. None)\<rparr>"

definition atomicShape :: Shape where
  "atomicShape = \<lparr>sh_compound = False, sh_mesh = None,
     sh_rayIntersect = (\<lambda>ray mint maxt. None)\<rparr>"

definition exampleLoad :: "Vec3 \<Rightarrow> Vec3 \<Rightarrow> Vec3 \<Rightarrow> nat \<times> real list" where
  "exampleLoad a b c = (2, [])"

definition exampleBuilder :: "ShapeKDTree \<Rightarrow> KDNode option \<times> nat list \<times> AABB" where
  "exampleBuilder kd =
     (Some (Leaf 0 3), [0, 1, 2], \<lparr>aabb_min = Vec3 0 0 0, aabb_max = Vec3 1 1 1\<rparr>)"

section \<open>Single-ray queries\<close>

text \<open>
  The record a traversal leaves in the scratch buffer \<open>temp\<close>: the header's
  \<open>IntersectionCache\<close> (shape index, primitive index, barycentric \<open>u\<close>, \<open>v\<close>) and,
  from byte offset \<open>2*sizeof(IndexType)\<close> on, the bytes of a shape's own test.
\<close>

record IntersectionCache =
  c_shapeIndex :: nat
  c_primIndex :: nat
  c_u :: real
  c_v :: real
  c_shapeTemp :: "nat list"

text \<open>The four file-level \<open>static StatsCounter\<close> objects, shared by all callers.\<close>

record StatsCounters =
  raysTraced :: nat
  shadowRaysTraced :: nat
  coherentPackets :: nat
  incoherentPackets :: nat

text \<open>
  What a query can reach besides its arguments: the kd-tree object and the
  counters. Every query takes this pair and returns it.
\<close>

type_synonym Shared = "ShapeKDTree \<times> StatsCounters"

text \<open>
  Three collaborators of the queries are declared in headers that are not among the
  sources and are parameters of the model:
  \<^item> \<open>Epsilon\<close>, the default minimal ray distance;
  \<^item> \<open>aabbRayIntersect\<close>, \<open>AABB::rayIntersect(ray, nearT, farT)\<close>, which yields the
    parameter interval in which the ray is inside the box, or nothing;
  \<^item> \<open>rayIntersectHavran\<close>, the scalar traversal core
    \<open>rayIntersectHavran<shadowRay>(ray, mint, maxt, t, temp)\<close>, which yields the hit
    distance and the cache record, or nothing.
\<close>

type_synonym AabbTest = "AABB \<Rightarrow> Ray \<Rightarrow> (real \<times> real) option"
type_synonym Havran =
  "bool \<Rightarrow> ShapeKDTree \<Rightarrow> Ray \<Rightarrow> real \<Rightarrow> real \<Rightarrow> (real \<times> IntersectionCache) option"

subsection \<open>rayIntersect(const Ray &, Intersection &)\<close>

text \<open>
  \<open>fillIntersectionRecord\<close> (header) builds the caller's record from the cache; it is
  a parameter.
\<close>

definition rayIntersect ::
  "real \<Rightarrow> AabbTest \<Rightarrow> Havran \<Rightarrow> (ShapeKDTree \<Rightarrow> Ray \<Rightarrow> IntersectionCache \<Rightarrow> real \<Rightarrow> 'its) \<Rightarrow>
   Ray \<Rightarrow> Shared \<Rightarrow> 'its option \<times> Shared" where
  "rayIntersect Epsilon aabbRayIntersect rayIntersectHavran fillIntersectionRecord ray w =
     (case w of (kd, stats) \<Rightarrow>
        let w' = (kd, stats\<lparr>raysTraced := raysTraced stats + 1\<rparr>) in
        (case aabbRayIntersect (m_aabb kd) ray of
           Some (mint0, maxt0) \<Rightarrow>
             let rayMinT0 = ray_mint ray;
                 rayMinT = (if rayMinT0 = Epsilon
                            then rayMinT0 * max (max (max \<bar>vx (ray_o ray)\<bar> \<bar>vy (ray_o ray)\<bar>)
                                                 \<bar>vz (ray_o ray)\<bar>) Epsilon
                            else rayMinT0);
                 mint = (if rayMinT > mint0 then rayMinT else mint0);
                 maxt = (if ray_maxt ray < maxt0 then ray_maxt ray else maxt0)
             in if maxt > mint then
                  (case rayIntersectHavran False kd ray mint maxt of
                     Some (t, cache) \<Rightarrow> (Some (fillIntersectionRecord kd ray cache t), w')
                   | None \<Rightarrow> (None, w'))
                else (None, w')
         | None \<Rightarrow> (None, w')))"

subsection \<open>rayIntersect(const Ray &, Float &, ConstShapePtr &, Normal &, Point2 &)\<close>

definition vsub :: "Vec3 \<Rightarrow> Vec3 \<Rightarrow> Vec3" where
  "vsub a b = Vec3 (vx a - vx b) (vy a - vy b) (vz a - vz b)"

definition cross :: "Vec3 \<Rightarrow> Vec3 \<Rightarrow> Vec3" where
  "cross a b = Vec3 (vy a * vz b - vz a * vy b) (vz a * vx b - vx a * vz b)
                    (vx a * vy b - vy a * vx b)"

definition normalize :: "Vec3 \<Rightarrow> Vec3" where
  "normalize a =
     (let l = sqrt (vx a * vx a + vy a * vy a + vz a * vz a)
      in Vec3 (vx a / l) (vy a / l) (vz a / l))"

text \<open>
  The result is \<open>(t, shape, n, uv)\<close>. \<open>shapeFill\<close> stands for the virtual
  \<open>Shape::fillIntersectionRecord\<close> of a shape that is no mesh: from the ray, the
  shape's bytes in the scratch buffer and \<open>t\<close> it yields the normal, \<open>uv\<close> and
  possibly another shape to report. The source reads the shape list, the triangle
  list and the vertex arrays without checks; nothing stated below about this
  function depends on what these reads yield.
\<close>

definition rayIntersect_t ::
  "real \<Rightarrow> AabbTest \<Rightarrow> Havran \<Rightarrow>
   (Shape \<Rightarrow> Ray \<Rightarrow> nat list \<Rightarrow> real \<Rightarrow> Vec3 \<times> (real \<times> real) \<times> Shape option) \<Rightarrow>
   Ray \<Rightarrow> Shared \<Rightarrow> (real \<times> Shape \<times> Vec3 \<times> (real \<times> real)) option \<times> Shared" where
  "rayIntersect_t Epsilon aabbRayIntersect rayIntersectHavran shapeFill ray w =
     (case w of (kd, stats) \<Rightarrow>
        let w' = (kd, stats\<lparr>shadowRaysTraced := shadowRaysTraced stats + 1\<rparr>) in
        (case aabbRayIntersect (m_aabb kd) ray of
           Some (mint0, maxt0) \<Rightarrow>
             let rayMinT0 = ray_mint ray;
                 rayMinT = (if rayMinT0 = Epsilon
                            then rayMinT0 * max (max \<bar>vx (ray_o ray)\<bar> \<bar>vy (ray_o ray)\<bar>)
                                                 \<bar>vz (ray_o ray)\<bar>
                            else rayMinT0);
                 mint = (if rayMinT > mint0 then rayMinT else mint0);
                 maxt = (if ray_maxt ray < maxt0 then ray_maxt ray else maxt0)
             in if maxt > mint then
                  (case rayIntersectHavran False kd ray mint maxt of
                     Some (t, cache) \<Rightarrow>
                       let shape = m_shapes kd ! c_shapeIndex cache in
                       if m_triangleFlag kd ! c_shapeIndex cache then
                         (let trimesh = the (sh_mesh shape);
                              (idx0, idx1, idx2) = triangles trimesh ! c_primIndex cache;
                              p0 = vertexPositions trimesh ! idx0;
                              p1 = vertexPositions trimesh ! idx1;
                              p2 = vertexPositions trimesh ! idx2;
                              n = normalize (cross (vsub p1 p0) (vsub p2 p0));
                              uv = (case vertexTexcoords trimesh of
                                      Some tc \<Rightarrow>
                                        let bx = 1 - c_u cache - c_v cache;
                                            by = c_u cache; bz = c_v cache;
                                            t0 = tc ! idx0; t1 = tc ! idx1; t2 = tc ! idx2
                                        in (fst t0 * bx + fst t1 * by + fst t2 * bz,
                                            snd t0 * bx + snd t1 * by + snd t2 * bz)
                                    | None \<Rightarrow> (0, 0))
                          in (Some (t, shape, n, uv), w'))
                       else
                         (case shapeFill shape ray (c_shapeTemp cache) t of
                            (n, uv, other) \<Rightarrow>
                              (Some (t, (case other of Some s \<Rightarrow> s | None \<Rightarrow> shape), n, uv),
                               w'))
                   | None \<Rightarrow> (None, w'))
                else (None, w')
         | None \<Rightarrow> (None, w')))"

subsection \<open>rayIntersect(const Ray &)\<close>

definition rayIntersect_shadow ::
  "real \<Rightarrow> AabbTest \<Rightarrow> Havran \<Rightarrow> Ray \<Rightarrow> Shared \<Rightarrow> bool \<times> Shared" where
  "rayIntersect_shadow Epsilon aabbRayIntersect rayIntersectHavran ray w =
     (case w of (kd, stats) \<Rightarrow>
        let w' = (kd, stats\<lparr>shadowRaysTraced := shadowRaysTraced stats + 1\<rparr>) in
        (case aabbRayIntersect (m_aabb kd) ray of
           Some (mint0, maxt0) \<Rightarrow>
             let rayMinT0 = ray_mint ray;
                 rayMinT = (if rayMinT0 = Epsilon
                            then rayMinT0 * max (max \<bar>vx (ray_o ray)\<bar> \<bar>vy (ray_o ray)\<bar>)
                                                 \<bar>vz (ray_o ray)\<bar>
                            else rayMinT0);
                 mint = (if rayMinT > mint0 then rayMinT else mint0);
                 maxt = (if ray_maxt ray < maxt0 then ray_maxt ray else maxt0)
             in if maxt > mint then
                  (case rayIntersectHavran True kd ray mint maxt of
                     Some h \<Rightarrow> (True, w')
                   | None \<Rightarrow> (False, w'))
                else (False, w')
         | None \<Rightarrow> (False, w')))"

section \<open>The stochastic ellipsoid query\<close>

datatype PLocation = ETBD | EInside | EOutside

text \<open>
  Of an ellipsoid the code at hand reads its bounding box only; everything else is
  used by the exact primitive test, which is a parameter below.
\<close>

record Ellipsoid =
  e_aabb :: AABB

subsection \<open>isBoxCuttingEllipsoid\<close>

text \<open>
  \<open>P\<close> holds the eight corner positions handed down the recursion (\<open>Float P[8][3]\<close>),
  \<open>L\<close> their location flags. Both are parameters of the function, as in the source.
\<close>

definition isBoxCuttingEllipsoid ::
  "ShapeKDTree \<Rightarrow> 'e Ellipsoid_scheme \<Rightarrow> real list list \<Rightarrow> PLocation list \<Rightarrow> bool" where
  "isBoxCuttingEllipsoid kd e P L =
     (if vx (aabb_max (e_aabb e)) < vx (aabb_min (m_aabb kd)) then False
      else if vx (aabb_min (e_aabb e)) > vx (aabb_max (m_aabb kd)) then False
      else if vy (aabb_max (e_aabb e)) < vy (aabb_min (m_aabb kd)) then False
      else if vy (aabb_min (e_aabb e)) > vy (aabb_max (m_aabb kd)) then False
      else if vz (aabb_max (e_aabb e)) < vz (aabb_min (m_aabb kd)) then False
      else if vz (aabb_min (e_aabb e)) > vz (aabb_max (m_aabb kd)) then False
      else True)"

subsection \<open>fillPositionsAndLocations\<close>

text \<open>
  The corner indices overwritten for a split axis and a direction (\<open>False\<close> is
  \<open>direction == 0\<close>, the left child), exactly as the \<open>switch\<close> lists them. Any other
  axis is logged with \<open>EError\<close>, which raises.
\<close>

definition cornerIndices :: "nat \<Rightarrow> bool \<Rightarrow> nat list option" where
  "cornerIndices axis direction =
     (if axis = 0 then (if \<not> direction then Some [1, 3, 5, 7] else Some [0, 2, 4, 5])
      else if axis = 1 then (if \<not> direction then Some [2, 3, 6, 7] else Some [0, 1, 4, 5])
      else if axis = 2 then (if \<not> direction then Some [4, 5, 6, 7] else Some [0, 1, 2, 3])
      else None)"

definition fillPositionsAndLocations ::
  "real list list \<Rightarrow> PLocation list \<Rightarrow> real \<Rightarrow> nat \<Rightarrow> bool \<Rightarrow>
   error + (real list list \<times> PLocation list)" where
  "fillPositionsAndLocations P L splitValue axis direction =
     (case cornerIndices axis direction of
        None \<Rightarrow> Inl AxisError
      | Some indices \<Rightarrow>
          Inr (fold (\<lambda>i (PNew, LNew). (PNew[i := (PNew ! i)[axis := splitValue]],
                                        LNew[i := ETBD]))
                 indices (P, L)))"

subsection \<open>recursiveEllipsoidIntersect\<close>

text \<open>
  The sampler is an external object with state; \<open>nextFloat\<close> and \<open>nextSize\<close> are its
  two methods used here, taking the state and returning the draw with the new
  state. \<open>ellipsoidIntersectTriangle\<close> (triaccel.h) is the exact test of one
  primitive; it reads and writes \<open>value\<close>, yields \<open>u\<close> and \<open>v\<close> and draws from the
  sampler: its result is \<open>(hit, value, u, v, sampler)\<close>.

  The reference parameter \<open>value\<close> of the source is called \<open>val\<close> here. The leaf
  reads its range as \<open>int l\<close> and \<open>int u\<close> (leaf ranges lie below \<open>2^31\<close>, where the
  cast keeps them); \<open>u - l\<close> is an \<open>int\<close>, the number of primitives of a leaf whose
  start does not lie beyond its end. \<open>nextSize\<close> takes it converted to \<open>size_t\<close>, of
  64 bits. When the exact test fails, \<open>value\<close> is divided by \<open>u - l\<close>; at a leaf with
  \<open>u = l\<close> this floating point division by zero leaves an infinity or a NaN in
  \<open>value\<close>, which have no counterpart in the reals: the outcome \<open>NonFiniteValue\<close>.

  The result of the recursion is \<open>(hit, value, sampler, cache)\<close>: the returned flag,
  the final content of the reference parameter \<open>value\<close>, the sampler state and the
  cache record written to \<open>temp\<close> on success. A read beyond the index buffer or the
  accelerator table is the error \<open>OutOfBounds\<close>.
\<close>

type_synonym ('e, 's) EllipsoidTest =
  "TriAccel \<Rightarrow> 'e Ellipsoid_scheme \<Rightarrow> real \<Rightarrow> 's \<Rightarrow> bool \<times> real \<times> real \<times> real \<times> 's"

definition lookupTriAccel :: "ShapeKDTree \<Rightarrow> nat \<Rightarrow> error + TriAccel" where
  "lookupTriAccel kd entry =
     (if entry < length (m_indices kd) then
        (case m_triAccel kd of
           None \<Rightarrow> Inl OutOfBounds
         | Some tab \<Rightarrow>
             if m_indices kd ! entry < length tab then
               (case tab ! (m_indices kd ! entry) of
                  Some ta \<Rightarrow> Inr ta
                | None \<Rightarrow> Inl OutOfBounds)
             else Inl OutOfBounds)
      else Inl OutOfBounds)"

fun recursiveEllipsoidIntersect ::
  "('s \<Rightarrow> real \<times> 's) \<Rightarrow> (nat \<Rightarrow> 's \<Rightarrow> nat \<times> 's) \<Rightarrow> ('e, 's) EllipsoidTest \<Rightarrow>
   ShapeKDTree \<Rightarrow> KDNode option \<Rightarrow> 'e Ellipsoid_scheme \<Rightarrow> real \<Rightarrow>
   real list list \<Rightarrow> PLocation list \<Rightarrow> 's \<Rightarrow>
   error + (bool \<times> real \<times> 's \<times> IntersectionCache option)" where
  "recursiveEllipsoidIntersect nextFloat nextSize ellipsoidIntersectTriangle kd None e val P L
     sampler = Inr (False, val, sampler, None)"
| "recursiveEllipsoidIntersect nextFloat nextSize ellipsoidIntersectTriangle kd
     (Some (Leaf l u)) e val P L sampler =
     (if \<not> isBoxCuttingEllipsoid kd e P L then Inr (False, val, sampler, None)
      else
        (case nextSize (nat ((int u - int l) mod 18446744073709551616)) sampler of
           (r, sampler1) \<Rightarrow>
           (case lookupTriAccel kd (l + r) of
              Inl err \<Rightarrow> Inl err
            | Inr ta \<Rightarrow>
                (case ellipsoidIntersectTriangle ta e val sampler1 of
                   (hit, val1, tempU, tempV, sampler2) \<Rightarrow>
                     if hit then
                       Inr (True, val1, sampler2,
                            Some \<lparr>c_shapeIndex = shapeIndex ta, c_primIndex = primIndex ta,
                                  c_u = tempU, c_v = tempV, c_shapeTemp = []\<rparr>)
                     else if u = l then Inl NonFiniteValue
                     else Inr (False, val1 / real_of_int (int u - int l), sampler2, None)))))"
| "recursiveEllipsoidIntersect nextFloat nextSize ellipsoidIntersectTriangle kd
     (Some (Inner axis splitValue left right)) e val P L sampler =
     (if \<not> isBoxCuttingEllipsoid kd e P L then Inr (False, val, sampler, None)
      else
        (case nextFloat sampler of (f, sampler1) \<Rightarrow>
           if f < 1 / 2 then
             (case fillPositionsAndLocations P L splitValue axis False of
                Inl err \<Rightarrow> Inl err
              | Inr (PNew, LNew) \<Rightarrow>
                  (case recursiveEllipsoidIntersect nextFloat nextSize
                          ellipsoidIntersectTriangle kd (Some left) e val PNew LNew sampler1 of
                     Inl err \<Rightarrow> Inl err
                   | Inr (hit, val1, sampler2, cache) \<Rightarrow>
                       if hit then Inr (True, val1 * (1 / 2), sampler2, cache)
                       else Inr (False, val1, sampler2, cache)))
           else
             (case fillPositionsAndLocations P L splitValue axis True of
                Inl err \<Rightarrow> Inl err
              | Inr (PNew, LNew) \<Rightarrow>
                  (case recursiveEllipsoidIntersect nextFloat nextSize
                          ellipsoidIntersectTriangle kd (Some right) e val PNew LNew sampler1 of
                     Inl err \<Rightarrow> Inl err
                   | Inr (hit, val1, sampler2, cache) \<Rightarrow>
                       if hit then Inr (True, val1 * (1 / 2), sampler2, cache)
                       else Inr (False, val1, sampler2, cache)))))"

subsection \<open>ellipsoidIntersect\<close>

text \<open>The eight corners of the tree's bounding box, in the order of the source.\<close>

definition rootPositions :: "AABB \<Rightarrow> real list list" where
  "rootPositions b =
     [[vx (aabb_min b), vy (aabb_min b), vz (aabb_min b)],
      [vx (aabb_max b), vy (aabb_min b), vz (aabb_min b)],
      [vx (aabb_min b), vy (aabb_max b), vz (aabb_min b)],
      [vx (aabb_max b), vy (aabb_max b), vz (aabb_min b)],
      [vx (aabb_min b), vy (aabb_min b), vz (aabb_max b)],
      [vx (aabb_max b), vy (aabb_min b), vz (aabb_max b)],
      [vx (aabb_min b), vy (aabb_max b), vz (aabb_max b)],
      [vx (aabb_max b), vy (aabb_max b), vz (aabb_max b)]]"

text \<open>
  \<open>fillEllipticIntersectionRecord\<close> (header) builds the caller's record from the
  cache; it is a parameter. The result is the returned flag, \<open>value\<close>, the sampler
  and the record.
\<close>

definition ellipsoidIntersect ::
  "('s \<Rightarrow> real \<times> 's) \<Rightarrow> (nat \<Rightarrow> 's \<Rightarrow> nat \<times> 's) \<Rightarrow> ('e, 's) EllipsoidTest \<Rightarrow>
   (Ray \<Rightarrow> IntersectionCache \<Rightarrow> 'its) \<Rightarrow>
   ShapeKDTree \<Rightarrow> 'e Ellipsoid_scheme \<Rightarrow> real \<Rightarrow> Ray \<Rightarrow> 's \<Rightarrow>
   error + (bool \<times> real \<times> 's \<times> 'its option)" where
  "ellipsoidIntersect nextFloat nextSize ellipsoidIntersectTriangle
     fillEllipticIntersectionRecord kd e val ray sampler =
     (case recursiveEllipsoidIntersect nextFloat nextSize ellipsoidIntersectTriangle kd
             (m_nodes kd) e val (rootPositions (m_aabb kd)) (replicate 8 ETBD) sampler of
        Inl err \<Rightarrow> Inl err
      | Inr (hit, val1, sampler1, cache) \<Rightarrow>
          if hit
          then Inr (True, val1, sampler1,
                    map_option (fillEllipticIntersectionRecord ray) cache)
          else Inr (False, val1, sampler1, None))"

section \<open>Collaborators modelled from the specification\<close>

text \<open>
  Modelled from the spec: the clip of a ray against the tree's bounding box
  (\<open>AABB::rayIntersect\<close>, declared in aabb.h, which is not among the sources). The
  specification asks to reject a ray that misses the box and to hand on the
  box-clipped interval: per axis the ray is inside the slab between the two
  parameters at which it crosses the slab's planes; on an axis along which the ray
  does not move the origin must lie inside the slab. A ray with the zero vector as
  direction is rejected. \<open>slabNear\<close> is the parameter at which the ray enters the
  slab of an axis.
\<close>

definition slabNear :: "AABB \<Rightarrow> Ray \<Rightarrow> nat \<Rightarrow> real" where
  "slabNear box ray a =
     min ((axisOf (aabb_min box) a - axisOf (ray_o ray) a) / axisOf (ray_d ray) a)
         ((axisOf (aabb_max box) a - axisOf (ray_o ray) a) / axisOf (ray_d ray) a)"

text \<open>Modelled from the spec: the parameter at which the ray leaves the slab of an axis.\<close>

definition slabFar :: "AABB \<Rightarrow> Ray \<Rightarrow> nat \<Rightarrow> real" where
  "slabFar box ray a =
     max ((axisOf (aabb_min box) a - axisOf (ray_o ray) a) / axisOf (ray_d ray) a)
         ((axisOf (aabb_max box) a - axisOf (ray_o ray) a) / axisOf (ray_d ray) a)"

text \<open>
  Modelled from the spec: the box-clipped interval of a ray, the intersection of its
  three slab intervals, or nothing when the ray misses the box.
\<close>

definition aabbClip :: AabbTest where
  "aabbClip box ray =
     (let par = filter (\<lambda>a. axisOf (ray_d ray) a = 0) [0, 1, 2];
          act = filter (\<lambda>a. axisOf (ray_d ray) a \<noteq> 0) [0, 1, 2]
      in if list_ex (\<lambda>a. axisOf (ray_o ray) a < axisOf (aabb_min box) a
                         \<or> axisOf (ray_o ray) a > axisOf (aabb_max box) a) par
         then None
         else (case act of
                 [] \<Rightarrow> None
               | a # as \<Rightarrow>
                   let nearT = fold (\<lambda>b t. max (slabNear box ray b) t) as (slabNear box ray a);
                       farT = fold (\<lambda>b t. min (slabFar box ray b) t) as (slabFar box ray a)
                   in if nearT \<le> farT then Some (nearT, farT) else None))"

text \<open>
  Modelled from the spec: the test of one primitive by the scalar traversal (the
  header's \<open>intersect(ray, idx, mint, maxt, t, temp)\<close>): "for a real triangle
  record, run the closed-form ray-triangle test; for a sentinel record, fall back to
  the owning shape's own intersection method restricted to the current search
  interval". \<open>triRayIntersect\<close> stands for the closed-form test
  \<open>TriAccel::rayIntersect\<close> and yields \<open>(t, u, v)\<close>.
\<close>

type_synonym TriTest = "TriAccel \<Rightarrow> Ray \<Rightarrow> real \<Rightarrow> real \<Rightarrow> (real \<times> real \<times> real) option"

definition primitiveTest ::
  "TriTest \<Rightarrow> ShapeKDTree \<Rightarrow> Ray \<Rightarrow> real \<Rightarrow> real \<Rightarrow> TriAccel \<Rightarrow>
   (real \<times> IntersectionCache) option" where
  "primitiveTest triRayIntersect kd ray mint maxt ta =
     (if ta_k ta \<noteq> KNoTriangleFlag then
        (case triRayIntersect ta ray mint maxt of
           Some (t, u, v) \<Rightarrow>
             Some (t, \<lparr>c_shapeIndex = shapeIndex ta, c_primIndex = primIndex ta,
                       c_u = u, c_v = v, c_shapeTemp = []\<rparr>)
         | None \<Rightarrow> None)
      else
        (case sh_rayIntersect (m_shapes kd ! shapeIndex ta) ray mint maxt of
           Some (t, bytes) \<Rightarrow>
             Some (t, \<lparr>c_shapeIndex = shapeIndex ta, c_primIndex = KNoTriangleFlag,
                       c_u = 0, c_v = 0, c_shapeTemp = bytes\<rparr>)
         | None \<Rightarrow> None))"

text \<open>
  Modelled from the spec: the scalar traversal core \<open>rayIntersectHavran\<close> (declared
  in the generic kd-tree header, which is not among the sources), by what the
  specification demands of it: the nearest-hit query "returns the same nearest hit
  as a brute-force test against every primitive", and the occlusion query reports
  "whether any intersection exists in range", stopping at the first success.
\<close>

fun nearestHit ::
  "TriTest \<Rightarrow> ShapeKDTree \<Rightarrow> Ray \<Rightarrow> real \<Rightarrow> real \<Rightarrow> TriAccel list \<Rightarrow>
   (real \<times> IntersectionCache) option \<Rightarrow> (real \<times> IntersectionCache) option" where
  "nearestHit triRayIntersect kd ray mint maxt [] best = best"
| "nearestHit triRayIntersect kd ray mint maxt (ta # tas) best =
     (case primitiveTest triRayIntersect kd ray mint maxt ta of
        Some h \<Rightarrow> nearestHit triRayIntersect kd ray mint (fst h) tas (Some h)
      | None \<Rightarrow> nearestHit triRayIntersect kd ray mint maxt tas best)"

text \<open>
  Modelled from the spec: the any-hit search of the occlusion query, which stops at
  the first primitive that is hit.
\<close>

fun firstHit ::
  "TriTest \<Rightarrow> ShapeKDTree \<Rightarrow> Ray \<Rightarrow> real \<Rightarrow> real \<Rightarrow> TriAccel list \<Rightarrow>
   (real \<times> IntersectionCache) option" where
  "firstHit triRayIntersect kd ray mint maxt [] = None"
| "firstHit triRayIntersect kd ray mint maxt (ta # tas) =
     (case primitiveTest triRayIntersect kd ray mint maxt ta of
        Some h \<Rightarrow> Some h
      | None \<Rightarrow> firstHit triRayIntersect kd ray mint maxt tas)"

text \<open>
  Modelled from the spec: the traversal core over the records of the accelerator
  table; \<open>shadowRay\<close> selects the any-hit search.
\<close>

definition rayIntersectHavran_spec :: "TriTest \<Rightarrow> Havran" where
  "rayIntersectHavran_spec triRayIntersect shadowRay kd ray mint maxt =
     (case m_triAccel kd of
        None \<Rightarrow> None
      | Some tab \<Rightarrow>
          if shadowRay
          then firstHit triRayIntersect kd ray mint maxt (List.map_filter (\<lambda>c. c) tab)
          else nearestHit triRayIntersect kd ray mint maxt (List.map_filter (\<lambda>c. c) tab) None)"

section \<open>A scene with a surface just above the world origin\<close>

text \<open>
  An atomic shape: the horizontal plane \<open>z = c\<close>. Its own test accepts the crossing
  parameter when it lies in the search interval.
\<close>

definition planeZ :: "real \<Rightarrow> Shape" where
  "planeZ c = \<lparr>sh_compound = False, sh_mesh = None,
     sh_rayIntersect = (\<lambda>ray mint maxt.
        if vz (ray_d ray) = 0 then None
        else (let t = (c - vz (ray_o ray)) / vz (ray_d ray)
              in if mint \<le> t \<and> t \<le> maxt then Some (t, []) else None))\<rparr>"

text \<open>The default \<open>Epsilon\<close> of the scene: \<open>1e-4\<close>.\<close>

definition eps4 :: real where
  "eps4 = 1 / 10000"

text \<open>
  The built tree over the single plane \<open>z = 5e-9\<close> (half of \<open>Epsilon\<close> squared), with
  the bounding box \<open>[-1, 1]^3\<close>, one leaf and one sentinel record.
\<close>

definition originScene :: ShapeKDTree where
  "originScene = \<lparr>m_shapeMap = [0, 1], m_triangleFlag = [False],
     m_shapes = [planeZ (1 / 200000000)],
     m_triAccel = Some [Some (sentinelRecord 0)],
     m_nodes = Some (Leaf 0 1), m_indices = [0],
     m_aabb = \<lparr>aabb_min = Vec3 (- 1) (- 1) (- 1), aabb_max = Vec3 1 1 1\<rparr>\<rparr>"

text \<open>The ray from the world origin straight up, with the default \<open>mint\<close>.\<close>

definition originRay :: Ray where
  "originRay = \<lparr>ray_o = Vec3 0 0 0, ray_d = Vec3 0 0 1, ray_dRcp = Vec3 0 0 1,
     ray_mint = eps4, ray_maxt = 1\<rparr>"

definition noTriangles :: TriTest where
  "noTriangles ta ray mint maxt = None"

definition zeroStats :: StatsCounters where
  "zeroStats = \<lparr>raysTraced = 0, shadowRaysTraced = 0, coherentPackets = 0,
     incoherentPackets = 0\<rparr>"

section \<open>Boxes, and a scene for the ellipsoid query\<close>

text \<open>
  Two axis-aligned boxes overlap when no coordinate axis separates them; this is the
  "separating-box test" in the words of the specification, stated for any two boxes.
\<close>

definition boxesOverlap :: "AABB \<Rightarrow> AABB \<Rightarrow> bool" where
  "boxesOverlap a b =
     list_all (\<lambda>k. axisOf (aabb_min a) k \<le> axisOf (aabb_max b) k
                 \<and> axisOf (aabb_min b) k \<le> axisOf (aabb_max a) k) [0, 1, 2]"

definition pointInBox :: "Vec3 \<Rightarrow> AABB \<Rightarrow> bool" where
  "pointInBox p b =
     list_all (\<lambda>k. axisOf (aabb_min b) k \<le> axisOf p k \<and> axisOf p k \<le> axisOf (aabb_max b) k)
       [0, 1, 2]"

text \<open>
  The box spanned by a list of corner positions: a node's own bounding box, as the
  recursion hands it down in \<open>P\<close>.
\<close>

definition coordMin :: "real list list \<Rightarrow> nat \<Rightarrow> real" where
  "coordMin P k = fold (\<lambda>c m. min (c ! k) m) (tl P) (hd P ! k)"

definition coordMax :: "real list list \<Rightarrow> nat \<Rightarrow> real" where
  "coordMax P k = fold (\<lambda>c m. max (c ! k) m) (tl P) (hd P ! k)"

definition cornersBox :: "real list list \<Rightarrow> AABB" where
  "cornersBox P =
     \<lparr>aabb_min = Vec3 (coordMin P 0) (coordMin P 1) (coordMin P 2),
      aabb_max = Vec3 (coordMax P 0) (coordMax P 1) (coordMax P 2)\<rparr>"

text \<open>
  A sampler driven by a list of uniform draws from \<open>[0, 1)\<close>: \<open>nextFloat\<close> hands out
  the next draw, \<open>nextSize n\<close> scales it to \<open>{0, ..., n-1}\<close>.
\<close>

definition listNextFloat :: "real list \<Rightarrow> real \<times> real list" where
  "listNextFloat s = (case s of [] \<Rightarrow> (0, []) | r # rs \<Rightarrow> (r, rs))"

definition listNextSize :: "nat \<Rightarrow> real list \<Rightarrow> nat \<times> real list" where
  "listNextSize n s = (case s of [] \<Rightarrow> (0, []) | r # rs \<Rightarrow> (nat \<lfloor>r * real n\<rfloor>, rs))"

text \<open>
  A built tree with the bounding box \<open>[0, 10]^3\<close>, split at \<open>x = 5\<close> into a left leaf
  with the primitives 0 and 1 and a right leaf with the primitive 2.
\<close>

definition splitScene :: ShapeKDTree where
  "splitScene = \<lparr>m_shapeMap = [0, 1, 2, 3], m_triangleFlag = [False, False, False],
     m_shapes = [atomicShape, atomicShape, atomicShape],
     m_triAccel = Some [Some (sentinelRecord 0), Some (sentinelRecord 1),
                        Some (sentinelRecord 2)],
     m_nodes = Some (Inner 0 5 (Leaf 0 2) (Leaf 2 3)), m_indices = [0, 1, 2],
     m_aabb = \<lparr>aabb_min = Vec3 0 0 0, aabb_max = Vec3 10 10 10\<rparr>\<rparr>"

text \<open>An ellipsoid whose bounding box \<open>[6, 7]^3\<close> lies right of the split plane.\<close>

definition rightEllipsoid :: Ellipsoid where
  "rightEllipsoid = \<lparr>e_aabb = \<lparr>aabb_min = Vec3 6 6 6, aabb_max = Vec3 7 7 7\<rparr>\<rparr>"

text \<open>An ellipsoid whose bounding box \<open>[1, 2]^3\<close> lies left of the split plane.\<close>

definition leftEllipsoid :: Ellipsoid where
  "leftEllipsoid = \<lparr>e_aabb = \<lparr>aabb_min = Vec3 1 1 1, aabb_max = Vec3 2 2 2\<rparr>\<rparr>"

text \<open>An ellipsoid whose bounding box \<open>[11, 12]^3\<close> lies outside the tree's box.\<close>

definition farEllipsoid :: Ellipsoid where
  "farEllipsoid = \<lparr>e_aabb = \<lparr>aabb_min = Vec3 11 11 11, aabb_max = Vec3 12 12 12\<rparr>\<rparr>"

text \<open>
  Two exact primitive tests for the scene: one that always succeeds and one that
  always fails; both leave \<open>value\<close> and the sampler as they are.
\<close>

definition testSucceeds :: "(unit, real list) EllipsoidTest" where
  "testSucceeds ta e val s = (True, val, 0, 0, s)"

definition testFails :: "(unit, real list) EllipsoidTest" where
  "testFails ta e val s = (False, val, 0, 0, s)"

section \<open>Ray packets\<close>

text \<open>
  A four-lane SSE value (\<open>SSEVector\<close>, with its views \<open>.ps\<close>, \<open>.f[i]\<close> and \<open>.i[i]\<close>). A
  comparison mask is a four-lane value of truth values.
\<close>

datatype 'a V4 = V4 'a 'a 'a 'a

fun lane :: "'a V4 \<Rightarrow> nat \<Rightarrow> 'a" where
  "lane (V4 a b c d) i = (if i = 0 then a else if i = 1 then b else if i = 2 then c else d)"

fun setLane :: "'a V4 \<Rightarrow> nat \<Rightarrow> 'a \<Rightarrow> 'a V4" where
  "setLane (V4 a b c d) i x =
     (if i = 0 then V4 x b c d else if i = 1 then V4 a x c d
      else if i = 2 then V4 a b x d else V4 a b c x)"

text \<open>Lane-wise binary operations: \<open>_mm_max_ps\<close>, \<open>_mm_cmpgt_ps\<close>, \<open>_mm_or_ps\<close>, ...\<close>

fun zip4 :: "('a \<Rightarrow> 'b \<Rightarrow> 'c) \<Rightarrow> 'a V4 \<Rightarrow> 'b V4 \<Rightarrow> 'c V4" where
  "zip4 f (V4 a b c d) (V4 a' b' c' d') = V4 (f a a') (f b b') (f c c') (f d d')"

definition set1 :: "'a \<Rightarrow> 'a V4" where
  "set1 x = V4 x x x x"

text \<open>\<open>_mm_movemask_ps\<close>: bit \<open>i\<close> of the result is the sign bit of lane \<open>i\<close>.\<close>

fun movemask :: "bool V4 \<Rightarrow> nat" where
  "movemask (V4 a b c d) =
     (if a then 1 else 0) + (if b then 2 else 0) + (if c then 4 else 0) + (if d then 8 else 0)"

text \<open>
  \<open>RayPacket4\<close>: \<open>p_o ! axis\<close> is \<open>packet.o[axis]\<close>, and \<open>p_signs ! axis ! i\<close> is
  \<open>packet.signs[axis][i]\<close>, which is 0 or 1.
\<close>

record RayPacket4 =
  p_o :: "real V4 list"
  p_d :: "real V4 list"
  p_dRcp :: "real V4 list"
  p_signs :: "nat list list"

record RayInterval4 =
  i_mint :: "real V4"
  i_maxt :: "real V4"

record Intersection4 =
  its_t :: "real V4"
  its_u :: "real V4"
  its_v :: "real V4"
  its_primIndex :: "nat V4"
  its_shapeIndex :: "nat V4"

text \<open>
  The collaborators of the packet traversal that are declared outside the sources:
  \<^item> \<open>aabbRayIntersectPacket\<close>, \<open>AABB::rayIntersectPacket(packet, interval)\<close>: the
    per-lane intervals when it returns true;
  \<^item> \<open>triPacket\<close>, \<open>mitsuba::rayIntersectPacket(kdTri, packet, searchStart, searchEnd,
    masked, its)\<close>: the mask of the lanes that hit, and the updated \<open>its\<close>;
  \<^item> \<open>om_eps\<close> and \<open>op_eps\<close>, the constants \<open>SSEConstants::om_eps\<close> and \<open>op_eps\<close>;
  \<^item> \<open>defaultRay\<close>, the default-constructed \<open>Ray\<close>.
\<close>

type_synonym TriPacketTest =
  "TriAccel \<Rightarrow> RayPacket4 \<Rightarrow> real V4 \<Rightarrow> real V4 \<Rightarrow> bool V4 \<Rightarrow> Intersection4 \<Rightarrow>
   bool V4 \<times> Intersection4"

text \<open>The scalar ray of lane \<open>i\<close>, as both packet functions assemble it.\<close>

definition laneRay :: "Ray \<Rightarrow> RayPacket4 \<Rightarrow> nat \<Rightarrow> Ray" where
  "laneRay r packet i =
     r\<lparr>ray_o := Vec3 (lane (p_o packet ! 0) i) (lane (p_o packet ! 1) i) (lane (p_o packet ! 2) i),
       ray_d := Vec3 (lane (p_d packet ! 0) i) (lane (p_d packet ! 1) i) (lane (p_d packet ! 2) i),
       ray_dRcp := Vec3 (lane (p_dRcp packet ! 0) i) (lane (p_dRcp packet ! 1) i)
                        (lane (p_dRcp packet ! 2) i)\<rparr>"

subsection \<open>The leaf of rayIntersectPacket\<close>

text \<open>
  What the traversal carries besides the current node and the stack. \<open>st_visited\<close>
  is not program state: it lists, for the analysis, every node that became the
  current node, with the mask \<open>masked\<close>, the flags \<open>itsFound\<close> and the active
  intervals at that moment.
\<close>

record Visit =
  v_node :: KDNode
  v_masked :: "bool V4"
  v_found :: "bool V4"
  v_interval :: RayInterval4

record PacketState =
  st_interval :: RayInterval4
  st_masked :: "bool V4"
  st_itsFound :: "bool V4"
  st_its :: Intersection4
  st_temp :: "IntersectionCache V4"
  st_visited :: "Visit list"

text \<open>
  The loop \<open>for (int i=0; i<4; ++i)\<close> over the lanes for a sentinel record: the
  shape's own test on every lane that is not masked.
\<close>

fun shapeLanes ::
  "Ray \<Rightarrow> Shape \<Rightarrow> TriAccel \<Rightarrow> RayPacket4 \<Rightarrow> real V4 \<Rightarrow> real V4 \<Rightarrow> bool V4 \<Rightarrow> nat list \<Rightarrow>
   bool V4 \<times> Intersection4 \<times> IntersectionCache V4 \<Rightarrow>
   bool V4 \<times> Intersection4 \<times> IntersectionCache V4" where
  "shapeLanes defaultRay shape kdTri packet searchStart searchEnd masked [] acc = acc"
| "shapeLanes defaultRay shape kdTri packet searchStart searchEnd masked (i # is)
     (itsFound, its, temp) =
     (if lane masked i
      then shapeLanes defaultRay shape kdTri packet searchStart searchEnd masked is
             (itsFound, its, temp)
      else
        (case sh_rayIntersect shape (laneRay defaultRay packet i) (lane searchStart i)
                (lane searchEnd i) of
           Some (t, bytes) \<Rightarrow>
             shapeLanes defaultRay shape kdTri packet searchStart searchEnd masked is
               (setLane itsFound i True,
                its\<lparr>its_t := setLane (its_t its) i t,
                    its_shapeIndex := setLane (its_shapeIndex its) i (shapeIndex kdTri),
                    its_primIndex := setLane (its_primIndex its) i KNoTriangleFlag\<rparr>,
                setLane temp i ((lane temp i)\<lparr>c_shapeTemp := bytes\<rparr>))
         | None \<Rightarrow>
             shapeLanes defaultRay shape kdTri packet searchStart searchEnd masked is
               (itsFound, its, temp)))"

text \<open>
  The loop \<open>for (IndexType entry=primStart; entry != primEnd; entry++)\<close>, here over
  the list of entries. The accumulator is \<open>(searchEnd, itsFound, its, temp)\<close>.
\<close>

fun leafEntries ::
  "TriPacketTest \<Rightarrow> Ray \<Rightarrow> ShapeKDTree \<Rightarrow> RayPacket4 \<Rightarrow> real V4 \<Rightarrow> bool V4 \<Rightarrow> nat list \<Rightarrow>
   real V4 \<times> bool V4 \<times> Intersection4 \<times> IntersectionCache V4 \<Rightarrow>
   error + (real V4 \<times> bool V4 \<times> Intersection4 \<times> IntersectionCache V4)" where
  "leafEntries triPacket defaultRay kd packet searchStart masked [] acc = Inr acc"
| "leafEntries triPacket defaultRay kd packet searchStart masked (entry # entries)
     (searchEnd, itsFound, its, temp) =
     (case lookupTriAccel kd entry of
        Inl err \<Rightarrow> Inl err
      | Inr kdTri \<Rightarrow>
          if ta_k kdTri \<noteq> KNoTriangleFlag then
            (case triPacket kdTri packet searchStart searchEnd masked its of
               (hit, its') \<Rightarrow>
                 leafEntries triPacket defaultRay kd packet searchStart masked entries
                   (zip4 min searchEnd (its_t its'), zip4 (\<or>) itsFound hit, its', temp))
          else if shapeIndex kdTri < length (m_shapes kd) then
            (case shapeLanes defaultRay (m_shapes kd ! shapeIndex kdTri) kdTri packet
                    searchStart searchEnd masked [0, 1, 2, 3] (itsFound, its, temp) of
               (itsFound', its', temp') \<Rightarrow>
                 leafEntries triPacket defaultRay kd packet searchStart masked entries
                   (zip4 min searchEnd (its_t its'), itsFound', its', temp'))
          else Inl OutOfBounds)"

text \<open>
  The code that runs on arrival at a leaf, up to the test for termination. A leaf
  whose start lies beyond its end makes the entry loop run out of the index buffer.
\<close>

definition leafStep ::
  "TriPacketTest \<Rightarrow> real \<Rightarrow> real \<Rightarrow> Ray \<Rightarrow> ShapeKDTree \<Rightarrow> RayPacket4 \<Rightarrow> RayInterval4 \<Rightarrow>
   nat \<Rightarrow> nat \<Rightarrow> PacketState \<Rightarrow> error + PacketState" where
  "leafStep triPacket om_eps op_eps defaultRay kd packet rayInterval primStart primEnd st =
     (let st0 = st\<lparr>st_visited := st_visited st @
                  [\<lparr>v_node = Leaf primStart primEnd, v_masked = st_masked st,
                    v_found = st_itsFound st, v_interval = st_interval st\<rparr>]\<rparr> in
      if primStart \<noteq> primEnd then
        (if primStart > primEnd then Inl OutOfBounds
         else
           (let searchStart = zip4 max (i_mint rayInterval)
                                (zip4 (*) (i_mint (st_interval st)) (set1 om_eps));
                searchEnd = zip4 min (i_maxt rayInterval)
                              (zip4 (*) (i_maxt (st_interval st)) (set1 op_eps))
            in case leafEntries triPacket defaultRay kd packet searchStart (st_masked st)
                      [primStart..<primEnd]
                      (searchEnd, st_itsFound st, st_its st, st_temp st) of
                 Inl err \<Rightarrow> Inl err
               | Inr (searchEnd', itsFound', its', temp') \<Rightarrow>
                   Inr (st0\<lparr>st_itsFound := itsFound', st_its := its', st_temp := temp'\<rparr>)))
      else Inr st0)"

subsection \<open>rayIntersectPacket\<close>

text \<open>The number of nodes of a subtree; the stack's total decreases with every pop.\<close>

fun nodeCount :: "KDNode \<Rightarrow> nat" where
  "nodeCount (Leaf a b) = 1"
| "nodeCount (Inner axis split l r) = 1 + nodeCount l + nodeCount r"

text \<open>
  The two nested loops of \<open>rayIntersectPacket\<close>, one equation per kind of current
  node. The stack is a list whose head is the top entry; in the source it is an
  array of \<open>MTS_KD_MAXDEPTH\<close> entries, the bound the tree builder keeps on the depth
  of the tree. \<open>currNode->getLeft() + packet.signs[axis][0]\<close> is the left child for
  the sign 0 and the right child for the sign 1, and \<open>getSibling()\<close> of it the other
  child.
\<close>

function packetLoop ::
  "TriPacketTest \<Rightarrow> real \<Rightarrow> real \<Rightarrow> Ray \<Rightarrow> ShapeKDTree \<Rightarrow> RayPacket4 \<Rightarrow> RayInterval4 \<Rightarrow>
   KDNode \<Rightarrow> (KDNode \<times> RayInterval4) list \<Rightarrow> PacketState \<Rightarrow> error + PacketState" where
  "packetLoop triPacket om_eps op_eps defaultRay kd packet rayInterval
     (Inner axis split left right) stack st =
     (let st0 = st\<lparr>st_visited := st_visited st @
                  [\<lparr>v_node = Inner axis split left right, v_masked = st_masked st,
                    v_found = st_itsFound st, v_interval = st_interval st\<rparr>]\<rparr>;
          interval = st_interval st;
          masked = st_masked st;
          t = zip4 (*) (zip4 (-) (set1 split) (p_o packet ! axis)) (p_dRcp packet ! axis);
          startsAfterSplit = zip4 (\<or>) masked (zip4 (<) t (i_mint interval));
          endsBeforeSplit = zip4 (\<or>) masked (zip4 (>) t (i_maxt interval));
          near = (if p_signs packet ! axis ! 0 = 0 then left else right);
          far = (if p_signs packet ! axis ! 0 = 0 then right else left)
      in if movemask startsAfterSplit = 15
         then packetLoop triPacket om_eps op_eps defaultRay kd packet rayInterval far stack st0
         else if movemask endsBeforeSplit = 15
         then packetLoop triPacket om_eps op_eps defaultRay kd packet rayInterval near stack st0
         else
           (let maxt' = zip4 min t (i_maxt interval)
            in packetLoop triPacket om_eps op_eps defaultRay kd packet rayInterval near
                 ((far, \<lparr>i_mint = zip4 max t (i_mint interval), i_maxt = i_maxt interval\<rparr>)
                    # stack)
                 (st0\<lparr>st_interval := \<lparr>i_mint = i_mint interval, i_maxt = maxt'\<rparr>,
                      st_masked := zip4 (\<or>) masked (zip4 (>) (i_mint interval) maxt')\<rparr>)))"
| "packetLoop triPacket om_eps op_eps defaultRay kd packet rayInterval
     (Leaf primStart primEnd) stack st =
     (case leafStep triPacket om_eps op_eps defaultRay kd packet rayInterval primStart primEnd
             st of
        Inl err \<Rightarrow> Inl err
      | Inr st' \<Rightarrow>
          if movemask (st_itsFound st') = 15 then Inr st'
          else
            (case stack of
               [] \<Rightarrow> Inr st'
             | (node, interval) # rest \<Rightarrow>
                 packetLoop triPacket om_eps op_eps defaultRay kd packet rayInterval node rest
                   (st'\<lparr>st_interval := interval,
                        st_masked := zip4 (\<or>) (st_itsFound st')
                                       (zip4 (>) (i_mint interval) (i_maxt interval))\<rparr>)))"
  by pat_completeness auto
termination
  by (relation "measure (\<lambda>(triPacket, om_eps, op_eps, defaultRay, kd, packet, rayInterval,
                           node, stack, st).
                     nodeCount node + sum_list (map (\<lambda>e. nodeCount (fst e)) stack))")
     auto

declare packetLoop.simps [simp del]


text \<open>
  \<open>rayIntersectPacket\<close>. The caller's \<open>its\<close> and \<open>temp\<close> are arguments and results; the
  third result is the list of visited nodes.
\<close>

definition rayIntersectPacket ::
  "TriPacketTest \<Rightarrow> (AABB \<Rightarrow> RayPacket4 \<Rightarrow> RayInterval4 option) \<Rightarrow> real \<Rightarrow> real \<Rightarrow> Ray \<Rightarrow>
   RayPacket4 \<Rightarrow> RayInterval4 \<Rightarrow> Intersection4 \<Rightarrow> IntersectionCache V4 \<Rightarrow> Shared \<Rightarrow>
   error + ((Intersection4 \<times> IntersectionCache V4 \<times> Visit list) \<times> Shared)" where
  "rayIntersectPacket triPacket aabbRayIntersectPacket om_eps op_eps defaultRay
     packet rayInterval its temp w =
     (case w of (kd, stats) \<Rightarrow>
        let w' = (kd, stats\<lparr>coherentPackets := coherentPackets stats + 1\<rparr>) in
        (case aabbRayIntersectPacket (m_aabb kd) packet of
           None \<Rightarrow> Inr ((its, temp, []), w')
         | Some interval0 \<Rightarrow>
             let interval = \<lparr>i_mint = zip4 max (i_mint interval0) (i_mint rayInterval),
                             i_maxt = zip4 min (i_maxt interval0) (i_maxt rayInterval)\<rparr>;
                 itsFound = zip4 (>) (i_mint interval) (i_maxt interval);
                 masked = itsFound
             in if movemask itsFound = 15 then Inr ((its, temp, []), w')
                else
                  (case m_nodes kd of
                     None \<Rightarrow> Inr ((its, temp, []), w')
                   | Some rootNode \<Rightarrow>
                       (case packetLoop triPacket om_eps op_eps defaultRay kd packet rayInterval
                               rootNode []
                               \<lparr>st_interval = interval, st_masked = masked,
                                st_itsFound = itsFound, st_its = its, st_temp = temp,
                                st_visited = []\<rparr> of
                          Inl err \<Rightarrow> Inl err
                        | Inr st \<Rightarrow> Inr ((st_its st, st_temp st, st_visited st), w')))))"

subsection \<open>rayIntersectPacketIncoherent\<close>

fun incoherentLanes ::
  "Havran \<Rightarrow> Ray \<Rightarrow> ShapeKDTree \<Rightarrow> RayPacket4 \<Rightarrow> RayInterval4 \<Rightarrow> nat list \<Rightarrow>
   Intersection4 \<times> IntersectionCache V4 \<Rightarrow> Intersection4 \<times> IntersectionCache V4" where
  "incoherentLanes rayIntersectHavran defaultRay kd packet rayInterval [] acc = acc"
| "incoherentLanes rayIntersectHavran defaultRay kd packet rayInterval (i # is) (its4, temp) =
     (let ray = (laneRay defaultRay packet i)
                  \<lparr>ray_mint := lane (i_mint rayInterval) i,
                   ray_maxt := lane (i_maxt rayInterval) i\<rparr>
      in if ray_mint ray < ray_maxt ray then
           (case rayIntersectHavran False kd ray (ray_mint ray) (ray_maxt ray) of
              Some (t, cache) \<Rightarrow>
                incoherentLanes rayIntersectHavran defaultRay kd packet rayInterval is
                  (its4\<lparr>its_t := setLane (its_t its4) i t,
                        its_shapeIndex := setLane (its_shapeIndex its4) i (c_shapeIndex cache),
                        its_primIndex := setLane (its_primIndex its4) i (c_primIndex cache),
                        its_u := setLane (its_u its4) i (c_u cache),
                        its_v := setLane (its_v its4) i (c_v cache)\<rparr>,
                   setLane temp i cache)
            | None \<Rightarrow>
                incoherentLanes rayIntersectHavran defaultRay kd packet rayInterval is
                  (its4, temp))
         else incoherentLanes rayIntersectHavran defaultRay kd packet rayInterval is
                (its4, temp))"

definition rayIntersectPacketIncoherent ::
  "Havran \<Rightarrow> Ray \<Rightarrow> RayPacket4 \<Rightarrow> RayInterval4 \<Rightarrow> Intersection4 \<Rightarrow> IntersectionCache V4 \<Rightarrow>
   Shared \<Rightarrow> (Intersection4 \<times> IntersectionCache V4) \<times> Shared" where
  "rayIntersectPacketIncoherent rayIntersectHavran defaultRay packet rayInterval its4 temp w =
     (case w of (kd, stats) \<Rightarrow>
        (incoherentLanes rayIntersectHavran defaultRay kd packet rayInterval [0, 1, 2, 3]
           (its4, temp),
         (kd, stats\<lparr>incoherentPackets := incoherentPackets stats + 1\<rparr>)))"

section \<open>Scenes for the packet queries\<close>












section \<open>Per-lane reading of a packet result\<close>






text \<open>
  Instances of the record-filling collaborators for the scenes: the caller's record
  is the distance; the cache itself; and, for the lightweight query, a fixed normal
  and \<open>uv\<close>.
\<close>

definition fillDistance :: "ShapeKDTree \<Rightarrow> Ray \<Rightarrow> IntersectionCache \<Rightarrow> real \<Rightarrow> real" where
  "fillDistance kd ray cache t = t"

definition fillCache :: "Ray \<Rightarrow> IntersectionCache \<Rightarrow> IntersectionCache" where
  "fillCache ray cache = cache"

definition flatShapeFill ::
  "Shape \<Rightarrow> Ray \<Rightarrow> nat list \<Rightarrow> real \<Rightarrow> Vec3 \<times> (real \<times> real) \<times> Shape option" where
  "flatShapeFill shape ray bytes t = (Vec3 0 0 1, (0, 0), None)"

section \<open>The coherent traversal read for one lane\<close>

















section \<open>Properties of registration and build\<close>

lemma toSizeType_id: "n < 4294967296 \<Longrightarrow> toSizeType n = n"
  by (simp add: toSizeType_def)

lemma toSizeType_less: "toSizeType n < 4294967296"
  by (simp add: toSizeType_def)

lemma shapeMapLoop_wpsums:
  "0 < i \<Longrightarrow> i \<le> length m \<Longrightarrow>
   shapeMapLoop i m = take i m @ wpsums (m ! (i - 1)) (drop i m)"
proof (induction i m rule: shapeMapLoop.induct)
  case (1 i m)
  show ?case
  proof (cases "i < length m")
    case True
    let ?m' = "m[i := toSizeType (m ! i + m ! (i - 1))]"
    have IH: "shapeMapLoop (i + 1) ?m' = take (i + 1) ?m' @ wpsums (?m' ! i) (drop (i + 1) ?m')"
      using "1.IH" [OF True] True by simp
    have a: "take (i + 1) ?m' = take i m @ [toSizeType (m ! i + m ! (i - 1))]"
      using True by (simp add: take_Suc_conv_app_nth)
    have b: "drop (i + 1) ?m' = drop (Suc i) m" by simp
    have c: "drop i m = m ! i # drop (Suc i) m"
      using True by (simp add: Cons_nth_drop_Suc)
    have "shapeMapLoop i m = shapeMapLoop (i + 1) ?m'"
      using True by (subst shapeMapLoop.simps) simp
    then show ?thesis using True IH a b c by simp
  next
    case False
    with "1.prems" have "i = length m" by simp
    then show ?thesis by (subst shapeMapLoop.simps) simp
  qed
qed

lemma wpsums_no_wrap: "a + sum_list xs < 4294967296 \<Longrightarrow> wpsums a xs = psums a xs"
proof (induction xs arbitrary: a)
  case Nil
  then show ?case by simp
next
  case (Cons x xs)
  have "toSizeType (x + a) = x + a" using Cons.prems by (simp add: toSizeType_id)
  moreover have "wpsums (x + a) xs = psums (x + a) xs"
    using Cons.prems by (intro Cons.IH) simp
  ultimately show ?case by simp
qed

lemma last_wpsums:
  "a < 4294967296 \<Longrightarrow> last (a # wpsums a xs) = (a + sum_list xs) mod 4294967296"
proof (induction xs arbitrary: a)
  case Nil
  then show ?case by simp
next
  case (Cons x xs)
  have "last (toSizeType (x + a) # wpsums (toSizeType (x + a)) xs) =
        (toSizeType (x + a) + sum_list xs) mod 4294967296"
    by (rule Cons.IH) (rule toSizeType_less)
  also have "\<dots> = ((x + a) + sum_list xs) mod 4294967296"
    unfolding toSizeType_def by (rule mod_add_left_eq)
  also have "(x + a) + sum_list xs = a + sum_list (x # xs)" by simp
  finally show ?case by simp
qed

lemma sum_list_recorded:
  "sum_list (map (\<lambda>s. toSizeType (contribution s)) shs) mod 4294967296
   = sum_list (map contribution shs) mod 4294967296"
proof (induction shs)
  case Nil
  then show ?case by simp
next
  case (Cons s shs)
  let ?S' = "sum_list (map (\<lambda>s. toSizeType (contribution s)) shs)"
  let ?S = "sum_list (map contribution shs)"
  have "(contribution s mod 4294967296 + ?S') mod 4294967296
        = (contribution s + ?S') mod 4294967296"
    by (simp add: mod_add_left_eq)
  also have "\<dots> = (contribution s + ?S' mod 4294967296) mod 4294967296"
    by (simp add: mod_add_right_eq)
  also have "\<dots> = (contribution s + ?S mod 4294967296) mod 4294967296"
    using Cons.IH by simp
  also have "\<dots> = (contribution s + ?S) mod 4294967296"
    by (simp add: mod_add_right_eq)
  finally show ?case by (simp add: toSizeType_def)
qed

lemma length_psums: "length (psums a xs) = length xs"
  by (induction xs arbitrary: a) auto

lemma nth_psums: "k < length xs \<Longrightarrow> psums a xs ! k = a + sum_list (take (Suc k) xs)"
proof (induction xs arbitrary: a k)
  case Nil then show ?case by simp
next
  case (Cons x xs)
  then show ?case by (cases k) auto
qed

lemma sorted_psums: "sorted (a # psums a xs)"
proof (induction xs arbitrary: a)
  case Nil then show ?case by simp
next
  case (Cons x xs)
  have "sorted ((x + a) # psums (x + a) xs)" by (rule Cons.IH)
  moreover have "\<forall>y \<in> set ((x + a) # psums (x + a) xs). a \<le> y"
    using calculation by auto
  ultimately show ?case by simp
qed

lemma last_psums: "last (a # psums a xs) = a + sum_list xs"
  by (induction xs arbitrary: a) auto

lemma addShapes_Inr:
  "addShapes ss kd = Inr kd' \<Longrightarrow>
   kd' = kd\<lparr>m_shapeMap := m_shapeMap kd @ map (\<lambda>s. toSizeType (contribution s)) ss,
             m_triangleFlag := m_triangleFlag kd @ map (\<lambda>s. sh_mesh s \<noteq> None) ss,
             m_shapes := m_shapes kd @ ss\<rparr>"
proof (induction ss arbitrary: kd)
  case Nil
  then show ?case by simp
next
  case (Cons s ss)
  from Cons.prems obtain kd1 where s1: "addShape s kd = Inr kd1" and s2: "addShapes ss kd1 = Inr kd'"
    by (auto split: sum.splits)
  from s1 have kd1: "kd1 = kd\<lparr>m_shapeMap := m_shapeMap kd @ [toSizeType (contribution s)],
             m_triangleFlag := m_triangleFlag kd @ [sh_mesh s \<noteq> None],
             m_shapes := m_shapes kd @ [s]\<rparr>"
    by (auto simp: addShape_def contribution_def toSizeType_def split: if_splits option.splits)
  show ?case using Cons.IH [OF s2] by (simp add: kd1)
qed

lemma addShapes_total:
  "\<not> isBuilt kd \<Longrightarrow> \<forall>s\<in>set ss. \<not> sh_compound s \<Longrightarrow> \<exists>kd'. addShapes ss kd = Inr kd'"
proof (induction ss arbitrary: kd)
  case Nil
  then show ?case by simp
next
  case (Cons s ss)
  then have "\<exists>kd1. addShape s kd = Inr kd1 \<and> \<not> isBuilt kd1"
    by (cases "sh_mesh s") (simp_all add: addShape_def isBuilt_def)
  then obtain kd1 where s1: "addShape s kd = Inr kd1" and nb: "\<not> isBuilt kd1"
    by blast
  from Cons.IH [OF nb] Cons.prems(2) obtain kd' where "addShapes ss kd1 = Inr kd'" by auto
  with s1 show ?case by simp
qed

lemma registered_fields:
  assumes "addShapes shs newShapeKDTree = Inr kd"
  shows "m_shapeMap kd = 0 # map (\<lambda>s. toSizeType (contribution s)) shs"
    and "m_triangleFlag kd = map (\<lambda>s. sh_mesh s \<noteq> None) shs"
    and "m_shapes kd = shs"
  using addShapes_Inr [OF assms] by (simp_all add: newShapeKDTree_def)

lemma length_shapeRecords: "length (shapeRecords load i s) = contribution s"
  by (simp add: shapeRecords_def contribution_def split: option.splits)

lemma meshRecord_Inr:
  "meshRecord load mesh i j = Inr r \<Longrightarrow> r = triangleRecord load mesh i j"
  by (auto simp: meshRecord_def triangleRecord_def split: if_splits prod.splits)

lemma meshRecord_total:
  "meshInBounds mesh \<Longrightarrow> j < getTriangleCount mesh \<Longrightarrow> \<exists>r. meshRecord load mesh i j = Inr r"
proof -
  assume ib: "meshInBounds mesh" and j: "j < getTriangleCount mesh"
  then have "triangles mesh ! j \<in> set (triangles mesh)" by (simp add: getTriangleCount_def)
  with ib have "case triangles mesh ! j of (i0, i1, i2) \<Rightarrow> i0 < length (vertexPositions mesh)
                  \<and> i1 < length (vertexPositions mesh) \<and> i2 < length (vertexPositions mesh)"
    by (simp add: meshInBounds_def list_all_iff)
  then show ?thesis using j
    by (auto simp: meshRecord_def getTriangleCount_def split: prod.splits)
qed

text \<open>What the triangle loop has done when it returns.\<close>

lemma triangleLoop_Inr:
  "triangleLoop load mesh i j idx tab = Inr (idx', tab') \<Longrightarrow>
   j \<le> getTriangleCount mesh \<Longrightarrow> idx \<le> length tab \<Longrightarrow>
   idx' = idx + (getTriangleCount mesh - j) \<and> idx' \<le> length tab
   \<and> tab' = take idx tab
            @ map (\<lambda>j. Some (triangleRecord load mesh i j)) [j..<getTriangleCount mesh]
            @ drop idx' tab"
proof (induction load mesh i j idx tab rule: triangleLoop.induct)
  case (1 load mesh i j idx tab)
  let ?n = "getTriangleCount mesh"
  have nw: "\<not> 4294967296 \<le> j"
    using "1.prems"(1) by (subst (asm) triangleLoop.simps) (simp split: if_splits)
  show ?case
  proof (cases "j < ?n")
    case False
    with "1.prems" have jn: "j = ?n" by simp
    have "triangleLoop load mesh i j idx tab = Inr (idx, tab)"
      using nw jn by (subst triangleLoop.simps) simp
    with "1.prems"(1) have "idx' = idx" "tab' = tab" by simp_all
    then show ?thesis using jn "1.prems"(3) by simp
  next
    case True
    have idx: "idx < length tab"
      using "1.prems"(1) nw True by (subst (asm) triangleLoop.simps) (simp split: if_splits)
    obtain r where mr: "meshRecord load mesh i j = Inr r"
      using "1.prems"(1) nw True idx
      by (subst (asm) triangleLoop.simps) (auto split: sum.splits)
    have r: "r = triangleRecord load mesh i j" by (rule meshRecord_Inr [OF mr])
    let ?tab1 = "tab[idx := Some r]"
    have step: "triangleLoop load mesh i (j + 1) (idx + 1) ?tab1 = Inr (idx', tab')"
      using "1.prems"(1) nw True idx mr by (subst (asm) triangleLoop.simps) simp
    have IH: "idx' = idx + 1 + (?n - (j + 1)) \<and> idx' \<le> length ?tab1
       \<and> tab' = take (idx + 1) ?tab1
            @ map (\<lambda>j. Some (triangleRecord load mesh i j)) [j + 1..<?n] @ drop idx' ?tab1"
      using "1.IH" [OF nw True idx mr step] True idx by simp
    have a: "take (idx + 1) ?tab1 = take idx tab @ [Some r]"
      using idx by (simp add: take_Suc_conv_app_nth)
    have i': "idx' = idx + (?n - j)" using IH True by simp
    have b: "drop idx' ?tab1 = drop idx' tab" using i' True by simp
    have c: "[j..<?n] = j # [j + 1..<?n]"
      using True by (simp add: upt_conv_Cons)
    have "tab' = take idx tab @ map (\<lambda>j. Some (triangleRecord load mesh i j)) [j..<?n]
                 @ drop idx' tab"
      using IH unfolding a b c by (simp add: r)
    then show ?thesis using i' IH by simp
  qed
qed

lemma triangleLoop_total:
  "meshInBounds mesh \<Longrightarrow> getTriangleCount mesh < 4294967296 \<Longrightarrow> j \<le> getTriangleCount mesh \<Longrightarrow>
   idx + (getTriangleCount mesh - j) \<le> length tab \<Longrightarrow>
   \<exists>res. triangleLoop load mesh i j idx tab = Inr res"
proof (induction load mesh i j idx tab rule: triangleLoop.induct)
  case (1 load mesh i j idx tab)
  let ?n = "getTriangleCount mesh"
  have nw: "\<not> 4294967296 \<le> j" using "1.prems"(2,3) by simp
  show ?case
  proof (cases "j < ?n")
    case False
    then show ?thesis using nw by (subst triangleLoop.simps) simp
  next
    case True
    have idx: "idx < length tab" using "1.prems"(4) True by simp
    obtain r where mr: "meshRecord load mesh i j = Inr r"
      using meshRecord_total [OF "1.prems"(1) True] by blast
    have "\<exists>res. triangleLoop load mesh i (j + 1) (idx + 1) (tab[idx := Some r]) = Inr res"
      using "1.IH" [OF nw True idx mr "1.prems"(1,2)] True "1.prems"(4) by simp
    then show ?thesis using nw True idx mr by (subst triangleLoop.simps) simp
  qed
qed

text \<open>What the shape loop has done when it returns.\<close>

lemma shapeLoop_Inr:
  "shapeLoop load shapes flags i idx tab = Inr (idx', tab') \<Longrightarrow>
   flags = map (\<lambda>s. sh_mesh s \<noteq> None) shapes \<Longrightarrow> i \<le> length shapes \<Longrightarrow>
   idx \<le> length tab \<Longrightarrow>
   idx' = idx + sum_list (map contribution (drop i shapes)) \<and> idx' \<le> length tab
   \<and> length shapes < 4294967296
   \<and> tab' = take idx tab
            @ map Some (concat (map (\<lambda>k. shapeRecords load k (shapes ! k)) [i..<length shapes]))
            @ drop idx' tab"
proof (induction load shapes flags i idx tab rule: shapeLoop.induct)
  case (1 load shapes flags i idx tab)
  let ?rest = "sum_list (map contribution (drop (i + 1) shapes))"
  let ?recs = "concat (map (\<lambda>k. shapeRecords load k (shapes ! k)) [i + 1..<length shapes])"
  have nw: "\<not> 4294967296 \<le> i"
    using "1.prems"(1) by (subst (asm) shapeLoop.simps) (simp split: if_splits)
  show ?case
  proof (cases "i < length shapes")
    case False
    with "1.prems" have il: "i = length shapes" by simp
    have "shapeLoop load shapes flags i idx tab = Inr (idx, tab)"
      using nw il by (subst shapeLoop.simps) simp
    with "1.prems"(1) have "idx' = idx" "tab' = tab" by simp_all
    then show ?thesis using il nw "1.prems"(4) by simp
  next
    case True
    have dr: "drop i shapes = shapes ! i # drop (i + 1) shapes"
      using True by (simp add: Cons_nth_drop_Suc)
    have up: "[i..<length shapes] = i # [i + 1..<length shapes]"
      using True by (simp add: upt_conv_Cons)
    have fl: "flags ! i = (sh_mesh (shapes ! i) \<noteq> None)"
      using True "1.prems"(2) by simp
    show ?thesis
    proof (cases "sh_mesh (shapes ! i)")
      case None
      have c1: "contribution (shapes ! i) = 1" by (simp add: contribution_def None)
      have nf: "\<not> flags ! i" using fl None by simp
      have idx: "idx < length tab"
        using "1.prems"(1) nw True nf by (subst (asm) shapeLoop.simps) (simp split: if_splits)
      let ?tab1 = "tab[idx := Some (sentinelRecord i)]"
      have step: "shapeLoop load shapes flags (i + 1) (idx + 1) ?tab1 = Inr (idx', tab')"
        using "1.prems"(1) nw True nf idx by (subst (asm) shapeLoop.simps) simp
      have IH: "idx' = idx + 1 + ?rest \<and> idx' \<le> length ?tab1 \<and> length shapes < 4294967296
         \<and> tab' = take (idx + 1) ?tab1 @ map Some ?recs @ drop idx' ?tab1"
        using "1.IH"(2) [OF nw True nf idx step "1.prems"(2)] True idx by simp
      have a: "take (idx + 1) ?tab1 = take idx tab @ [Some (sentinelRecord i)]"
        using idx by (simp add: take_Suc_conv_app_nth)
      have i': "idx' = idx + sum_list (map contribution (drop i shapes))"
        using IH by (simp add: dr c1)
      have b: "drop idx' ?tab1 = drop idx' tab" using IH by simp
      have r: "shapeRecords load i (shapes ! i) = [sentinelRecord i]"
        by (simp add: shapeRecords_def None sentinelRecord_def zeroTriAccel_def)
      have "tab' = take idx tab
            @ map Some (concat (map (\<lambda>k. shapeRecords load k (shapes ! k)) [i..<length shapes]))
            @ drop idx' tab"
        using IH unfolding a b up by (simp add: r)
      then show ?thesis using i' IH by simp
    next
      case (Some mesh)
      let ?n = "getTriangleCount mesh"
      have c1: "contribution (shapes ! i) = ?n" by (simp add: contribution_def Some)
      have f: "flags ! i" using fl Some by simp
      obtain idx1 tab1 where tl: "triangleLoop load mesh i 0 idx tab = Inr (idx1, tab1)"
        using "1.prems"(1) nw True f Some
        by (subst (asm) shapeLoop.simps) (auto split: sum.splits)
      note T = triangleLoop_Inr [OF tl _ "1.prems"(4)]
      have t1: "idx1 = idx + ?n" and t2: "idx1 \<le> length tab"
        and t3: "tab1 = take idx tab @ map (\<lambda>j. Some (triangleRecord load mesh i j)) [0..<?n]
                   @ drop idx1 tab"
        using T by simp_all
      have len: "length tab1 = length tab" using t2 unfolding t3 t1 by simp
      have step: "shapeLoop load shapes flags (i + 1) idx1 tab1 = Inr (idx', tab')"
        using "1.prems"(1) nw True f Some tl by (subst (asm) shapeLoop.simps) simp
      have IH: "idx' = idx1 + ?rest \<and> idx' \<le> length tab1 \<and> length shapes < 4294967296
         \<and> tab' = take idx1 tab1 @ map Some ?recs @ drop idx' tab1"
        using "1.IH"(1) [OF nw True f Some tl refl step "1.prems"(2)] True t2 len by simp
      have a: "take idx1 tab1 = take idx tab @ map (\<lambda>j. Some (triangleRecord load mesh i j)) [0..<?n]"
        using t2 unfolding t3 t1 by simp
      have i': "idx' = idx + sum_list (map contribution (drop i shapes))"
        using IH by (simp add: dr c1 t1)
      have ge: "idx1 \<le> idx'" using IH by simp
      have b: "drop idx' tab1 = drop idx' tab"
      proof -
        have "drop idx' tab1 = drop (idx' - idx1) (drop idx1 tab1)" using ge by simp
        also have "drop idx1 tab1 = drop idx1 tab" using t2 unfolding t3 t1 by simp
        also have "drop (idx' - idx1) (drop idx1 tab) = drop idx' tab" using ge by simp
        finally show ?thesis .
      qed
      have r: "map Some (shapeRecords load i (shapes ! i))
               = map (\<lambda>j. Some (triangleRecord load mesh i j)) [0..<?n]"
        by (simp add: shapeRecords_def Some)
      have "tab' = take idx tab
            @ map Some (concat (map (\<lambda>k. shapeRecords load k (shapes ! k)) [i..<length shapes]))
            @ drop idx' tab"
        using IH unfolding a b up by (simp add: r)
      then show ?thesis using i' IH len by simp
    qed
  qed
qed

lemma shapeLoop_total:
  "flags = map (\<lambda>s. sh_mesh s \<noteq> None) shapes \<Longrightarrow> i \<le> length shapes \<Longrightarrow>
   length shapes < 4294967296 \<Longrightarrow> length tab < 4294967296 \<Longrightarrow>
   \<forall>s\<in>set shapes. shapeInBounds s \<Longrightarrow>
   idx + sum_list (map contribution (drop i shapes)) \<le> length tab \<Longrightarrow>
   \<exists>res. shapeLoop load shapes flags i idx tab = Inr res"
proof (induction load shapes flags i idx tab rule: shapeLoop.induct)
  case (1 load shapes flags i idx tab)
  have nw: "\<not> 4294967296 \<le> i" using "1.prems"(2,3) by simp
  show ?case
  proof (cases "i < length shapes")
    case False
    then show ?thesis using nw by (subst shapeLoop.simps) simp
  next
    case True
    have dr: "drop i shapes = shapes ! i # drop (i + 1) shapes"
      using True by (simp add: Cons_nth_drop_Suc)
    have fl: "flags ! i = (sh_mesh (shapes ! i) \<noteq> None)"
      using True "1.prems"(1) by simp
    show ?thesis
    proof (cases "sh_mesh (shapes ! i)")
      case None
      have c1: "contribution (shapes ! i) = 1" by (simp add: contribution_def None)
      have nf: "\<not> flags ! i" using fl None by simp
      have idx: "idx < length tab" using "1.prems"(6) dr c1 by simp
      have "\<exists>res. shapeLoop load shapes flags (i + 1) (idx + 1)
                     (tab[idx := Some (sentinelRecord i)]) = Inr res"
        using "1.IH"(2) [OF nw True nf idx "1.prems"(1) _ "1.prems"(3) _ "1.prems"(5)]
          True "1.prems"(4,6) dr c1 by simp
      then show ?thesis using nw True nf idx by (subst shapeLoop.simps) simp
    next
      case (Some mesh)
      let ?n = "getTriangleCount mesh"
      have c1: "contribution (shapes ! i) = ?n" by (simp add: contribution_def Some)
      have f: "flags ! i" using fl Some by simp
      have ib: "meshInBounds mesh"
        using "1.prems"(5) True Some by (auto simp: shapeInBounds_def dest!: bspec [of _ _ "shapes ! i"])
      have room: "idx + (?n - 0) \<le> length tab" using "1.prems"(6) dr c1 by simp
      have small: "?n < 4294967296" using room "1.prems"(4) by simp
      obtain idx1 tab1 where tl: "triangleLoop load mesh i 0 idx tab = Inr (idx1, tab1)"
        using triangleLoop_total [OF ib small _ room, of load i] by auto
      have idx_le: "idx \<le> length tab" using room by simp
      note T = triangleLoop_Inr [OF tl _ idx_le]
      have t1: "idx1 = idx + ?n" and t2: "idx1 \<le> length tab"
        and t3: "tab1 = take idx tab @ map (\<lambda>j. Some (triangleRecord load mesh i j)) [0..<?n]
                   @ drop idx1 tab"
        using T by simp_all
      have len: "length tab1 = length tab" using t2 unfolding t3 t1 by simp
      have "\<exists>res. shapeLoop load shapes flags (i + 1) idx1 tab1 = Inr res"
        using "1.IH"(1) [OF nw True f Some tl refl "1.prems"(1) _ "1.prems"(3) _ "1.prems"(5)]
          True "1.prems"(4,6) dr c1 len t1 by (simp add: add.assoc)
      then show ?thesis using nw True f Some tl by (subst shapeLoop.simps) simp
    qed
  qed
qed

lemma length_tableOf: "length (tableOf load shs) = sum_list (map contribution shs)"
proof -
  have "map (\<lambda>k. contribution (shs ! k)) [0..<length shs] = map contribution shs"
    by (rule nth_equalityI) simp_all
  then show ?thesis
    by (simp add: tableOf_def length_concat length_shapeRecords comp_def)
qed

text \<open>
  When \<open>build\<close> returns, the primitive count fits \<open>SizeType\<close>, there are fewer than
  \<open>2^32\<close> shapes, the shape map holds the running sums and the table the records of
  the shapes in their order.
\<close>

lemma build_Inr:
  assumes sm: "m_shapeMap kd = 0 # map (\<lambda>s. toSizeType (contribution s)) shs"
    and tf: "m_triangleFlag kd = map (\<lambda>s. sh_mesh s \<noteq> None) shs"
    and sh: "m_shapes kd = shs"
    and bld: "build load bi kd = Inr kd'"
  shows "sum_list (map contribution shs) < 4294967296 \<and> length shs < 4294967296
       \<and> m_shapeMap kd' = 0 # psums 0 (map contribution shs)
       \<and> m_shapes kd' = shs
       \<and> m_triAccel kd' = Some (map Some (tableOf load shs))"
proof -
  let ?cs = "map contribution shs"
  let ?rs = "map (\<lambda>s. toSizeType (contribution s)) shs"
  let ?total = "sum_list ?cs"
  have loop: "shapeMapLoop 1 (m_shapeMap kd) = 0 # wpsums 0 ?rs"
    using shapeMapLoop_wpsums [of 1 "0 # ?rs"] by (simp add: sm)
  let ?kd1 = "kd\<lparr>m_shapeMap := 0 # wpsums 0 ?rs\<rparr>"
  obtain nodes indices box where bi: "bi ?kd1 = (nodes, indices, box)"
    by (cases "bi ?kd1") auto
  let ?kd2 = "?kd1\<lparr>m_nodes := nodes, m_indices := indices, m_aabb := box\<rparr>"
  let ?pc = "getPrimitiveCount ?kd2"
  have pc: "?pc = ?total mod 4294967296"
    using last_wpsums [of 0 ?rs] sum_list_recorded [of shs] by (simp add: getPrimitiveCount_def)
  from bld obtain idx tab
    where fill: "shapeLoop load shs (map (\<lambda>s. sh_mesh s \<noteq> None) shs) 0 0 (replicate ?pc None)
                   = Inr (idx, tab)"
      and kd': "kd' = ?kd2\<lparr>m_triAccel := Some tab\<rparr>"
    by (simp only: build_def loop Let_def bi prod.case)
       (auto simp: tf sh split: sum.splits if_splits)
  note S = shapeLoop_Inr [OF fill refl]
  have s1: "idx = ?total" and s2: "idx \<le> ?pc" and s3: "length shs < 4294967296"
    and s4: "tab = map Some (tableOf load shs) @ drop idx (replicate ?pc None)"
    using S by (simp_all add: tableOf_def)
  have small: "?total < 4294967296"
  proof -
    have "?total \<le> ?total mod 4294967296" using s1 s2 pc by simp
    moreover have "?total mod 4294967296 < 4294967296" by simp
    ultimately show ?thesis by linarith
  qed
  have pc': "?pc = ?total" using pc small by simp
  have tab: "tab = map Some (tableOf load shs)" using s4 s1 pc' by simp
  have rs: "?rs = ?cs"
  proof (rule map_cong [OF refl])
    fix s assume "s \<in> set shs"
    then have "contribution s \<le> ?total" by (simp add: member_le_sum_list)
    with small show "toSizeType (contribution s) = contribution s"
      by (simp add: toSizeType_id)
  qed
  have map': "0 # wpsums 0 ?rs = 0 # psums 0 ?cs"
    using wpsums_no_wrap [of 0 ?cs] small by (simp add: rs)
  show ?thesis using small s3 by (simp add: kd' map' tab sh)
qed

text \<open>
  \<open>build\<close> returns for every registered scene with fewer than \<open>2^32\<close> shapes and
  fewer than \<open>2^32\<close> primitives whose meshes name vertices that exist.
\<close>

lemma build_total:
  assumes sm: "m_shapeMap kd = 0 # map (\<lambda>s. toSizeType (contribution s)) shs"
    and tf: "m_triangleFlag kd = map (\<lambda>s. sh_mesh s \<noteq> None) shs"
    and sh: "m_shapes kd = shs"
    and n: "length shs < 4294967296"
    and small: "sum_list (map contribution shs) < 4294967296"
    and ib: "\<forall>s\<in>set shs. shapeInBounds s"
  shows "\<exists>kd'. build load bi kd = Inr kd'"
proof -
  let ?cs = "map contribution shs"
  let ?rs = "map (\<lambda>s. toSizeType (contribution s)) shs"
  let ?total = "sum_list ?cs"
  have loop: "shapeMapLoop 1 (m_shapeMap kd) = 0 # wpsums 0 ?rs"
    using shapeMapLoop_wpsums [of 1 "0 # ?rs"] by (simp add: sm)
  let ?kd1 = "kd\<lparr>m_shapeMap := 0 # wpsums 0 ?rs\<rparr>"
  obtain nodes indices box where bi: "bi ?kd1 = (nodes, indices, box)"
    by (cases "bi ?kd1") auto
  let ?kd2 = "?kd1\<lparr>m_nodes := nodes, m_indices := indices, m_aabb := box\<rparr>"
  have pc: "getPrimitiveCount ?kd2 = ?total"
    using last_wpsums [of 0 ?rs] sum_list_recorded [of shs] small
    by (simp add: getPrimitiveCount_def)
  obtain idx tab
    where fill: "shapeLoop load shs (map (\<lambda>s. sh_mesh s \<noteq> None) shs) 0 0
                   (replicate ?total None) = Inr (idx, tab)"
    using shapeLoop_total [OF refl _ n _ ib, of 0 "replicate ?total None" 0 load] small
    by auto
  have "idx = ?total" using shapeLoop_Inr [OF fill refl] by simp
  then have "build load bi kd = Inr (?kd2\<lparr>m_triAccel := Some tab\<rparr>)"
    using fill by (simp only: build_def loop Let_def bi prod.case pc) (simp add: tf sh)
  then show ?thesis by blast
qed

lemma psums_as_map:
  "0 # psums 0 cs = map (\<lambda>i. sum_list (take i cs)) [0..<Suc (length cs)]"
proof (rule nth_equalityI)
  show "length (0 # psums 0 cs) = length (map (\<lambda>i. sum_list (take i cs)) [0..<Suc (length cs)])"
    by (simp add: length_psums)
next
  fix i assume "i < length (0 # psums 0 cs)"
  then have i: "i < Suc (length cs)" by (simp add: length_psums)
  have rhs: "map (\<lambda>i. sum_list (take i cs)) [0..<Suc (length cs)] ! i = sum_list (take i cs)"
    using i by (simp del: upt_Suc)
  show "(0 # psums 0 cs) ! i = map (\<lambda>i. sum_list (take i cs)) [0..<Suc (length cs)] ! i"
  proof (cases i)
    case 0
    then show ?thesis unfolding rhs by simp
  next
    case (Suc k)
    with i have k: "k < length cs" by simp
    show ?thesis unfolding rhs using Suc k by (simp add: nth_psums)
  qed
qed

lemma nth_concat_offset:
  "k < length xss \<Longrightarrow> j < length (xss ! k) \<Longrightarrow>
   concat xss ! (sum_list (map length (take k xss)) + j) = xss ! k ! j"
proof (induction xss arbitrary: k)
  case Nil
  then show ?case by simp
next
  case (Cons xs xss)
  show ?case
  proof (cases k)
    case 0
    then show ?thesis using Cons.prems by (simp add: nth_append)
  next
    case (Suc k')
    then have "concat xss ! (sum_list (map length (take k' xss)) + j) = xss ! k' ! j"
      using Cons.prems by (intro Cons.IH) simp_all
    then show ?thesis using Suc by (simp add: nth_append add.assoc)
  qed
qed

text \<open>Every record of the table, field by field.\<close>

lemma tableOf_entry:
  assumes "r \<in> set (tableOf load shs)"
  shows "shapeIndex r < length shs \<and>
         (case sh_mesh (shs ! shapeIndex r) of
            Some mesh \<Rightarrow> primIndex r < getTriangleCount mesh
              \<and> (case triangles mesh ! primIndex r of (i0, i1, i2) \<Rightarrow>
                   (ta_k r, ta_coeffs r) = load (vertexPositions mesh ! i0)
                      (vertexPositions mesh ! i1) (vertexPositions mesh ! i2))
          | None \<Rightarrow> ta_k r = KNoTriangleFlag \<and> ta_coeffs r = [] \<and> primIndex r = 0)"
proof -
  from assms obtain k where k: "k < length shs" and r: "r \<in> set (shapeRecords load k (shs ! k))"
    by (auto simp: tableOf_def)
  show ?thesis
  proof (cases "sh_mesh (shs ! k)")
    case None
    with r have "r = \<lparr>ta_k = KNoTriangleFlag, ta_coeffs = [], shapeIndex = k, primIndex = 0\<rparr>"
      by (simp add: shapeRecords_def)
    then show ?thesis using k None by simp
  next
    case (Some mesh)
    with r obtain j where j: "j < getTriangleCount mesh" and rj: "r = triangleRecord load mesh k j"
      by (auto simp: shapeRecords_def)
    have "shapeIndex r = k" "primIndex r = j" by (simp_all add: rj triangleRecord_def)
    then show ?thesis using k Some j
      by (simp add: rj triangleRecord_def split: prod.splits)
  qed
qed

text \<open>The record at offset \<open>j\<close> from the start of shape \<open>k\<close> in the table.\<close>

lemma tableOf_at:
  assumes k: "k < length shs" and j: "j < contribution (shs ! k)"
  shows "tableOf load shs ! (sum_list (map contribution (take k shs)) + j)
         = shapeRecords load k (shs ! k) ! j"
proof -
  let ?xss = "map (\<lambda>k. shapeRecords load k (shs ! k)) [0..<length shs]"
  have len: "map length (take k ?xss) = map contribution (take k shs)"
    using k by (intro nth_equalityI) (simp_all add: length_shapeRecords)
  have "concat ?xss ! (sum_list (map length (take k ?xss)) + j) = ?xss ! k ! j"
    using k j by (intro nth_concat_offset) (simp_all add: length_shapeRecords)
  then show ?thesis using k unfolding len by (simp add: tableOf_def)
qed

lemma shapeRecords_at:
  "j < contribution s \<Longrightarrow>
   shapeIndex (shapeRecords load k s ! j) = k
   \<and> primIndex (shapeRecords load k s ! j) = (case sh_mesh s of Some mesh \<Rightarrow> j | None \<Rightarrow> 0)"
  by (cases "sh_mesh s") (simp_all add: shapeRecords_def contribution_def triangleRecord_def)

lemma example_in_bounds: "shapeInBounds meshShape" "shapeInBounds atomicShape"
  by (simp_all add: shapeInBounds_def meshInBounds_def meshShape_def atomicShape_def
        exampleMesh_def)

lemma example_contribution: "contribution meshShape = 2" "contribution atomicShape = 1"
  by (simp_all add: contribution_def meshShape_def atomicShape_def exampleMesh_def
        getTriangleCount_def)

lemma example_mesh: "sh_mesh meshShape = Some exampleMesh" "sh_mesh atomicShape = None"
  by (simp_all add: meshShape_def atomicShape_def)

lemma example_not_compound: "\<not> sh_compound meshShape" "\<not> sh_compound atomicShape"
  by (simp_all add: meshShape_def atomicShape_def)

text \<open>
  Beyond the range of \<open>SizeType\<close>: for two meshes of 3000000000 and 2000000000
  triangles the loop of \<open>build\<close> leaves the wrapped sum 705032704 in the last entry
  of the shape map, the table is allocated for that many records, and \<open>build\<close> does
  not return: the fill loop runs out of the table.
\<close>

lemma shapeMapLoop_wraps:
  "shapeMapLoop 1 [0, 3000000000, 2000000000] = [0, 3000000000, 705032704]"
  apply (subst shapeMapLoop.simps, simp add: toSizeType_def)
  apply (subst shapeMapLoop.simps, simp add: toSizeType_def)
  apply (subst shapeMapLoop.simps, simp)
  done

lemma build_beyond_SizeType:
  "\<exists>kd. addShapes [bigShape 3000000000, bigShape 2000000000] newShapeKDTree = Inr kd
     \<and> m_shapeMap kd = [0, 3000000000, 2000000000]
     \<and> (\<forall>load bi kd'. build load bi kd \<noteq> Inr kd')"
proof -
  have nb: "\<not> isBuilt newShapeKDTree" by (simp add: isBuilt_def newShapeKDTree_def)
  have nc: "\<forall>s\<in>set [bigShape 3000000000, bigShape 2000000000]. \<not> sh_compound s"
    by (simp add: bigShape_def)
  from addShapes_total [OF nb nc] obtain kd
    where reg: "addShapes [bigShape 3000000000, bigShape 2000000000] newShapeKDTree = Inr kd"
    by blast
  note f = registered_fields [OF reg]
  have c: "contribution (bigShape n) = n" for n
    by (simp add: contribution_def bigShape_def bigMesh_def getTriangleCount_def)
  have m: "m_shapeMap kd = [0, 3000000000, 2000000000]"
    using f(1) by (simp add: c toSizeType_def)
  have "build load bi kd \<noteq> Inr kd'" for load bi kd'
  proof
    assume "build load bi kd = Inr kd'"
    from build_Inr [OF f this] show False by (simp add: c)
  qed
  with reg m show ?thesis by blast
qed

text \<open>
  Claim C8. \<open>build\<close> turns the per-shape counts that \<open>addShape\<close> stored into running
  sums. For every scene of non-compound shapes with fewer than \<open>2^32\<close> shapes and
  fewer than \<open>2^32\<close> primitives (and meshes that name existing vertices),
  registration and \<open>build\<close> return, and whenever \<open>build\<close> returns, entry \<open>i\<close> of the
  shape map is the number of primitives of the shapes \<open>0..i-1\<close> (entry 0 is the
  leading zero), the map is non-decreasing and its last entry is the total
  primitive count.
\<close>

theorem build_shapeMap_prefix_sum:
  "((\<forall>s\<in>set shs. \<not> sh_compound s \<and> shapeInBounds s) \<and> length shs < 4294967296
      \<and> sum_list (map contribution shs) < 4294967296
     \<longrightarrow> (\<exists>kd kd'. addShapes shs newShapeKDTree = Inr kd
            \<and> build load buildInternal kd = Inr kd'
            \<and> m_shapeMap kd' =
                map (\<lambda>i. sum_list (map contribution (take i shs))) [0..<length shs + 1]))
   \<and> (addShapes shs newShapeKDTree = Inr kd \<and> build load buildInternal kd = Inr kd'
     \<longrightarrow> m_shapeMap kd' =
           map (\<lambda>i. sum_list (map contribution (take i shs))) [0..<length shs + 1]
         \<and> sorted (m_shapeMap kd')
         \<and> last (m_shapeMap kd') = sum_list (map contribution shs))"
proof -
  have ps: "0 # psums 0 (map contribution shs) =
        map (\<lambda>i. sum_list (map contribution (take i shs))) [0..<length shs + 1]"
    using psums_as_map [of "map contribution shs"] by (simp add: take_map del: upt_Suc)
  have two: "m_shapeMap kd' =
           map (\<lambda>i. sum_list (map contribution (take i shs))) [0..<length shs + 1]
         \<and> sorted (m_shapeMap kd')
         \<and> last (m_shapeMap kd') = sum_list (map contribution shs)"
    if reg: "addShapes shs newShapeKDTree = Inr kd" and bld: "build load buildInternal kd = Inr kd'"
    for kd kd'
  proof -
    from build_Inr [OF registered_fields [OF reg] bld]
    have sm: "m_shapeMap kd' = 0 # psums 0 (map contribution shs)" by simp
    show ?thesis
      using sorted_psums [of 0 "map contribution shs"] last_psums [of 0 "map contribution shs"]
      unfolding sm ps [symmetric] by simp
  qed
  have one: "\<exists>kd kd'. addShapes shs newShapeKDTree = Inr kd
            \<and> build load buildInternal kd = Inr kd'
            \<and> m_shapeMap kd' =
                map (\<lambda>i. sum_list (map contribution (take i shs))) [0..<length shs + 1]"
    if ok: "\<forall>s\<in>set shs. \<not> sh_compound s \<and> shapeInBounds s" and n: "length shs < 4294967296"
      and small: "sum_list (map contribution shs) < 4294967296"
  proof -
    have nb: "\<not> isBuilt newShapeKDTree" by (simp add: isBuilt_def newShapeKDTree_def)
    from ok have nc: "\<forall>s\<in>set shs. \<not> sh_compound s" and ib: "\<forall>s\<in>set shs. shapeInBounds s"
      by simp_all
    from addShapes_total [OF nb nc] obtain kd
      where reg: "addShapes shs newShapeKDTree = Inr kd" by blast
    from build_total [OF registered_fields [OF reg] n small ib, of load buildInternal] obtain kd'
      where bld: "build load buildInternal kd = Inr kd'" by blast
    from two [OF reg bld] reg bld show ?thesis by blast
  qed
  from one two show ?thesis by blast
qed

theorem build_shapeMap_prefix_sum_witness:
  "\<not> sh_compound meshShape \<and> shapeInBounds meshShape
   \<and> \<not> sh_compound atomicShape \<and> shapeInBounds atomicShape
   \<and> sum_list (map contribution [meshShape, atomicShape, atomicShape]) = 4
   \<and> (\<exists>kd kd'. addShapes [meshShape, atomicShape, atomicShape] newShapeKDTree = Inr kd
        \<and> build exampleLoad exampleBuilder kd = Inr kd'
        \<and> m_shapeMap kd' = [0, 2, 3, 4] \<and> sorted (m_shapeMap kd')
        \<and> last (m_shapeMap kd') = 4)"
proof -
  let ?shs = "[meshShape, atomicShape, atomicShape]"
  note t = build_shapeMap_prefix_sum [where shs = ?shs and load = exampleLoad
      and buildInternal = exampleBuilder]
  have ok: "(\<forall>s\<in>set ?shs. \<not> sh_compound s \<and> shapeInBounds s) \<and> length ?shs < 4294967296
      \<and> sum_list (map contribution ?shs) < 4294967296"
    by (simp add: example_in_bounds example_contribution example_not_compound)
  from t [THEN conjunct1, THEN mp, OF ok] obtain kd kd'
    where reg: "addShapes ?shs newShapeKDTree = Inr kd"
      and bld: "build exampleLoad exampleBuilder kd = Inr kd'"
    by blast
  have up: "[0..<length ?shs + 1] = [0, 1, 2, 3]" by (simp add: upt_rec)
  have "m_shapeMap kd' = [0, 2, 3, 4] \<and> sorted (m_shapeMap kd') \<and> last (m_shapeMap kd') = 4"
    using t [of kd kd', THEN conjunct2, THEN mp, OF conjI [OF reg bld]]
    unfolding up by (simp add: example_contribution)
  with reg bld show ?thesis
    by (auto simp: example_in_bounds example_contribution example_not_compound)
qed

text \<open>
  Claim C7. For every list of non-compound shapes with fewer than \<open>2^32\<close> shapes
  and fewer than \<open>2^32\<close> primitives (and meshes that name existing vertices),
  registration and \<open>build\<close> return. Whenever \<open>build\<close> returns, every cell of the
  accelerator table is written, the table has as many records as the shapes
  contribute in total (the primitive count), every record carries a shape index
  below the number of shapes; a record of a mesh carries \<open>k\<close> and the coefficients
  that \<open>TriAccel::load\<close> yields for the three vertices of its triangle, and the local
  index of that triangle; a record of any other shape carries the not-a-triangle
  marker, no coefficients and the primitive index 0. The records of shape \<open>k\<close> start
  at entry \<open>k\<close> of the shape map and follow in the order of the triangles.
\<close>

theorem build_triAccel_table:
  "((\<forall>s\<in>set shs. \<not> sh_compound s \<and> shapeInBounds s) \<and> length shs < 4294967296
      \<and> sum_list (map contribution shs) < 4294967296
     \<longrightarrow> (\<exists>kd kd'. addShapes shs newShapeKDTree = Inr kd
            \<and> build load buildInternal kd = Inr kd'))
   \<and> (addShapes shs newShapeKDTree = Inr kd \<and> build load buildInternal kd = Inr kd'
     \<longrightarrow> (\<exists>tab. m_triAccel kd' = Some (map Some tab)
           \<and> length tab = sum_list (map contribution shs)
           \<and> length tab = getPrimitiveCount kd'
           \<and> m_shapes kd' = shs
           \<and> (\<forall>r\<in>set tab.
                 shapeIndex r < length shs
               \<and> (case sh_mesh (shs ! shapeIndex r) of
                    Some mesh \<Rightarrow> primIndex r < getTriangleCount mesh
                      \<and> (case triangles mesh ! primIndex r of (i0, i1, i2) \<Rightarrow>
                           (ta_k r, ta_coeffs r) = load (vertexPositions mesh ! i0)
                              (vertexPositions mesh ! i1) (vertexPositions mesh ! i2))
                  | None \<Rightarrow> ta_k r = KNoTriangleFlag \<and> ta_coeffs r = [] \<and> primIndex r = 0))
           \<and> (\<forall>k<length shs. \<forall>j<contribution (shs ! k).
                 shapeIndex (tab ! (m_shapeMap kd' ! k + j)) = k
               \<and> primIndex (tab ! (m_shapeMap kd' ! k + j))
                   = (case sh_mesh (shs ! k) of Some mesh \<Rightarrow> j | None \<Rightarrow> 0))))"
proof -
  have two: "\<exists>tab. m_triAccel kd' = Some (map Some tab)
           \<and> length tab = sum_list (map contribution shs)
           \<and> length tab = getPrimitiveCount kd'
           \<and> m_shapes kd' = shs
           \<and> (\<forall>r\<in>set tab.
                 shapeIndex r < length shs
               \<and> (case sh_mesh (shs ! shapeIndex r) of
                    Some mesh \<Rightarrow> primIndex r < getTriangleCount mesh
                      \<and> (case triangles mesh ! primIndex r of (i0, i1, i2) \<Rightarrow>
                           (ta_k r, ta_coeffs r) = load (vertexPositions mesh ! i0)
                              (vertexPositions mesh ! i1) (vertexPositions mesh ! i2))
                  | None \<Rightarrow> ta_k r = KNoTriangleFlag \<and> ta_coeffs r = [] \<and> primIndex r = 0))
           \<and> (\<forall>k<length shs. \<forall>j<contribution (shs ! k).
                 shapeIndex (tab ! (m_shapeMap kd' ! k + j)) = k
               \<and> primIndex (tab ! (m_shapeMap kd' ! k + j))
                   = (case sh_mesh (shs ! k) of Some mesh \<Rightarrow> j | None \<Rightarrow> 0))"
    if reg: "addShapes shs newShapeKDTree = Inr kd" and bld: "build load buildInternal kd = Inr kd'"
  proof -
    note B = build_Inr [OF registered_fields [OF reg] bld]
    have sm: "m_shapeMap kd' = 0 # psums 0 (map contribution shs)"
      and sh: "m_shapes kd' = shs"
      and ta: "m_triAccel kd' = Some (map Some (tableOf load shs))"
      using B by simp_all
    have b: "length (tableOf load shs) = sum_list (map contribution shs)"
      by (rule length_tableOf)
    have c: "length (tableOf load shs) = getPrimitiveCount kd'"
      using last_psums [of 0 "map contribution shs"] by (simp add: getPrimitiveCount_def b sm)
    have d: "\<forall>r\<in>set (tableOf load shs).
                 shapeIndex r < length shs
               \<and> (case sh_mesh (shs ! shapeIndex r) of
                    Some mesh \<Rightarrow> primIndex r < getTriangleCount mesh
                      \<and> (case triangles mesh ! primIndex r of (i0, i1, i2) \<Rightarrow>
                           (ta_k r, ta_coeffs r) = load (vertexPositions mesh ! i0)
                              (vertexPositions mesh ! i1) (vertexPositions mesh ! i2))
                  | None \<Rightarrow> ta_k r = KNoTriangleFlag \<and> ta_coeffs r = [] \<and> primIndex r = 0)"
      using tableOf_entry [of _ load shs] by simp
    have e: "shapeIndex (tableOf load shs ! (m_shapeMap kd' ! k + j)) = k
               \<and> primIndex (tableOf load shs ! (m_shapeMap kd' ! k + j))
                   = (case sh_mesh (shs ! k) of Some mesh \<Rightarrow> j | None \<Rightarrow> 0)"
      if k: "k < length shs" and j: "j < contribution (shs ! k)" for k j
    proof -
      have "m_shapeMap kd' ! k = sum_list (map contribution (take k shs))"
        using k unfolding sm psums_as_map by (simp add: take_map del: upt_Suc)
      then show ?thesis
        using tableOf_at [OF k j, of load] shapeRecords_at [OF j, of load k] by simp
    qed
    from ta b c sh d e show ?thesis by blast
  qed
  have one: "\<exists>kd kd'. addShapes shs newShapeKDTree = Inr kd
            \<and> build load buildInternal kd = Inr kd'"
    if ok: "\<forall>s\<in>set shs. \<not> sh_compound s \<and> shapeInBounds s" and n: "length shs < 4294967296"
      and small: "sum_list (map contribution shs) < 4294967296"
  proof -
    have nb: "\<not> isBuilt newShapeKDTree" by (simp add: isBuilt_def newShapeKDTree_def)
    from ok have nc: "\<forall>s\<in>set shs. \<not> sh_compound s" and ib: "\<forall>s\<in>set shs. shapeInBounds s"
      by simp_all
    from addShapes_total [OF nb nc] obtain kd
      where reg: "addShapes shs newShapeKDTree = Inr kd" by blast
    from build_total [OF registered_fields [OF reg] n small ib, of load buildInternal] reg
    show ?thesis by blast
  qed
  from one two show ?thesis by blast
qed


theorem build_triAccel_table_witness:
  "\<not> sh_compound meshShape \<and> shapeInBounds meshShape
   \<and> \<not> sh_compound atomicShape \<and> shapeInBounds atomicShape
   \<and> (\<exists>kd kd' tab. addShapes [meshShape, atomicShape] newShapeKDTree = Inr kd
        \<and> build exampleLoad exampleBuilder kd = Inr kd'
        \<and> m_triAccel kd' = Some (map Some tab) \<and> length tab = 3
        \<and> shapeIndex (tab ! 0) = 0 \<and> primIndex (tab ! 0) = 0 \<and> ta_k (tab ! 0) = 2
        \<and> shapeIndex (tab ! 1) = 0 \<and> primIndex (tab ! 1) = 1 \<and> ta_k (tab ! 1) = 2
        \<and> shapeIndex (tab ! 2) = 1 \<and> primIndex (tab ! 2) = 0
        \<and> ta_k (tab ! 2) = KNoTriangleFlag)"
proof -
  let ?shs = "[meshShape, atomicShape]"
  note t = build_triAccel_table [where shs = ?shs and load = exampleLoad
      and buildInternal = exampleBuilder]
  have ok: "(\<forall>s\<in>set ?shs. \<not> sh_compound s \<and> shapeInBounds s) \<and> length ?shs < 4294967296
      \<and> sum_list (map contribution ?shs) < 4294967296"
    by (simp add: example_in_bounds example_contribution example_not_compound)
  from t [THEN conjunct1, THEN mp, OF ok] obtain kd kd'
    where reg: "addShapes ?shs newShapeKDTree = Inr kd"
      and bld: "build exampleLoad exampleBuilder kd = Inr kd'"
    by blast
  from t [of kd kd', THEN conjunct2, THEN mp, OF conjI [OF reg bld]] obtain tab
    where ta: "m_triAccel kd' = Some (map Some tab)"
      and len: "length tab = sum_list (map contribution ?shs)"
      and each: "\<forall>r\<in>set tab.
                 shapeIndex r < length ?shs
               \<and> (case sh_mesh (?shs ! shapeIndex r) of
                    Some mesh \<Rightarrow> primIndex r < getTriangleCount mesh
                      \<and> (case triangles mesh ! primIndex r of (i0, i1, i2) \<Rightarrow>
                           (ta_k r, ta_coeffs r) = exampleLoad (vertexPositions mesh ! i0)
                              (vertexPositions mesh ! i1) (vertexPositions mesh ! i2))
                  | None \<Rightarrow> ta_k r = KNoTriangleFlag \<and> ta_coeffs r = [] \<and> primIndex r = 0)"
      and at: "\<forall>k<length ?shs. \<forall>j<contribution (?shs ! k).
                 shapeIndex (tab ! (m_shapeMap kd' ! k + j)) = k
               \<and> primIndex (tab ! (m_shapeMap kd' ! k + j))
                   = (case sh_mesh (?shs ! k) of Some mesh \<Rightarrow> j | None \<Rightarrow> 0)"
    by blast
  have len3: "length tab = 3" using len by (simp add: example_contribution)
  have sm: "m_shapeMap kd' = [0, 2, 3]"
    using build_Inr [OF registered_fields [OF reg] bld] by (simp add: example_contribution)
  have p0: "shapeIndex (tab ! 0) = 0 \<and> primIndex (tab ! 0) = 0"
    using at [rule_format, of 0 0] by (simp add: sm example_contribution example_mesh)
  have p1: "shapeIndex (tab ! 1) = 0 \<and> primIndex (tab ! 1) = 1"
    using at [rule_format, of 0 1] by (simp add: sm example_contribution example_mesh)
  have p2: "shapeIndex (tab ! 2) = 1 \<and> primIndex (tab ! 2) = 0"
    using at [rule_format, of 1 0] by (simp add: sm example_contribution example_mesh)
  have k0: "ta_k (tab ! 0) = 2"
    using each [rule_format, of "tab ! 0"] len3 p0
    by (simp add: example_mesh exampleMesh_def exampleLoad_def getTriangleCount_def)
  have k1: "ta_k (tab ! 1) = 2"
    using each [rule_format, of "tab ! 1"] len3 p1
    by (simp add: example_mesh exampleMesh_def exampleLoad_def getTriangleCount_def)
  have k2: "ta_k (tab ! 2) = KNoTriangleFlag"
    using each [rule_format, of "tab ! 2"] len3 p2
    by (simp add: example_mesh)
  from reg bld ta len3 p0 p1 p2 k0 k1 k2 show ?thesis
    by (auto simp: example_in_bounds example_not_compound)
qed

section \<open>Properties of the single-ray queries\<close>

lemma originScene_clip: "aabbClip (m_aabb originScene) originRay = Some (- 1, 1)"
  by (simp add: aabbClip_def originScene_def originRay_def axisOf_def slabNear_def slabFar_def)

lemma originScene_havran:
  "rayIntersectHavran_spec noTriangles shadowRay originScene originRay lo hi =
     (if lo \<le> 1 / 200000000 \<and> 1 / 200000000 \<le> hi
      then Some (1 / 200000000, \<lparr>c_shapeIndex = 0, c_primIndex = KNoTriangleFlag,
                       c_u = 0, c_v = 0, c_shapeTemp = []\<rparr>)
      else None)"
  by (simp add: rayIntersectHavran_spec_def originScene_def originRay_def
        List.map_filter_simps primitiveTest_def sentinelRecord_def zeroTriAccel_def
        planeZ_def Let_def)

lemma originScene_hit_iff:
  "(rayIntersectHavran_spec noTriangles shadowRay originScene originRay lo hi \<noteq> None)
     = (lo \<le> 1 / 200000000 \<and> 1 / 200000000 \<le> hi)"
  by (simp add: originScene_havran del: not_None_eq)

text \<open>
  Claim C2. The nearest-hit query hands the traversal core the interval from
  \<open>max(nearT, m)\<close> to \<open>min(farT, ray.maxt)\<close>, where \<open>[nearT, farT]\<close> is the
  bounding-box clip and \<open>m\<close> is \<open>ray.mint\<close> times
  \<open>max(|o.x|, |o.y|, |o.z|, Epsilon)\<close> exactly when \<open>ray.mint\<close> equals \<open>Epsilon\<close>, and
  the caller's \<open>ray.mint\<close> unchanged otherwise. The statement holds for every
  traversal core, so it fixes the interval the core is called with.
\<close>

theorem rayIntersect_adaptive_epsilon:
  "fst (rayIntersect Epsilon aabbRayIntersect rayIntersectHavran fillIntersectionRecord ray
          (kd, stats)) =
     (case aabbRayIntersect (m_aabb kd) ray of
        None \<Rightarrow> None
      | Some (nearT, farT) \<Rightarrow>
          let effMinT = (if ray_mint ray = Epsilon
                         then Epsilon * max (max (max \<bar>vx (ray_o ray)\<bar> \<bar>vy (ray_o ray)\<bar>)
                                                 \<bar>vz (ray_o ray)\<bar>) Epsilon
                         else ray_mint ray);
              lo = max nearT effMinT;
              hi = min farT (ray_maxt ray)
          in if lo < hi
             then map_option (\<lambda>(t, cache). fillIntersectionRecord kd ray cache t)
                    (rayIntersectHavran False kd ray lo hi)
             else None)"
proof -
  define s where "s = max (max (max \<bar>vx (ray_o ray)\<bar> \<bar>vy (ray_o ray)\<bar>)
                                                 \<bar>vz (ray_o ray)\<bar>) Epsilon"
  show ?thesis
    unfolding rayIntersect_def s_def [symmetric]
    by (simp add: Let_def max_def min_def not_less split: option.splits)
qed

lemma originRay_fields:
  "ray_o originRay = Vec3 0 0 0" "ray_mint originRay = eps4" "ray_maxt originRay = 1"
  by (simp_all add: originRay_def)

text \<open>
  Claim C10. For a ray whose \<open>mint\<close> is the default \<open>Epsilon\<close>, the full
  nearest-hit query starts its search at \<open>Epsilon * max(|o.x|, |o.y|, |o.z|, Epsilon)\<close>,
  while the lightweight variant and the occlusion query start at
  \<open>Epsilon * max(|o.x|, |o.y|, |o.z|)\<close>, both clipped below by the box entry. For a
  ray from the origin \<open>(0,0,0)\<close> the second product is 0 and the first is
  \<open>Epsilon * Epsilon\<close>, which is positive.
\<close>

theorem adaptive_epsilon_variants:
  assumes pos: "0 < Epsilon"
    and dflt: "ray_mint ray = Epsilon"
    and box: "aabbRayIntersect (m_aabb kd) ray = Some (nearT, farT)"
  shows
    "(fst (rayIntersect Epsilon aabbRayIntersect rayIntersectHavran fillIntersectionRecord ray
             (kd, stats)) \<noteq> None \<longleftrightarrow>
        (let lo = max nearT (Epsilon * max (max (max \<bar>vx (ray_o ray)\<bar> \<bar>vy (ray_o ray)\<bar>)
                                                  \<bar>vz (ray_o ray)\<bar>) Epsilon);
             hi = min farT (ray_maxt ray)
         in lo < hi \<and> rayIntersectHavran False kd ray lo hi \<noteq> None))
   \<and> (fst (rayIntersect_t Epsilon aabbRayIntersect rayIntersectHavran shapeFill ray
             (kd, stats)) \<noteq> None \<longleftrightarrow>
        (let lo = max nearT (Epsilon * max (max \<bar>vx (ray_o ray)\<bar> \<bar>vy (ray_o ray)\<bar>)
                                             \<bar>vz (ray_o ray)\<bar>);
             hi = min farT (ray_maxt ray)
         in lo < hi \<and> rayIntersectHavran False kd ray lo hi \<noteq> None))
   \<and> (fst (rayIntersect_shadow Epsilon aabbRayIntersect rayIntersectHavran ray (kd, stats)) \<longleftrightarrow>
        (let lo = max nearT (Epsilon * max (max \<bar>vx (ray_o ray)\<bar> \<bar>vy (ray_o ray)\<bar>)
                                             \<bar>vz (ray_o ray)\<bar>);
             hi = min farT (ray_maxt ray)
         in lo < hi \<and> rayIntersectHavran True kd ray lo hi \<noteq> None))
   \<and> (ray_o ray = Vec3 0 0 0 \<longrightarrow>
        Epsilon * max (max \<bar>vx (ray_o ray)\<bar> \<bar>vy (ray_o ray)\<bar>) \<bar>vz (ray_o ray)\<bar> = 0
      \<and> Epsilon * max (max (max \<bar>vx (ray_o ray)\<bar> \<bar>vy (ray_o ray)\<bar>) \<bar>vz (ray_o ray)\<bar>) Epsilon
          = Epsilon * Epsilon
      \<and> 0 < Epsilon * Epsilon)"
proof -
  define s where "s = max (max \<bar>vx (ray_o ray)\<bar> \<bar>vy (ray_o ray)\<bar>) \<bar>vz (ray_o ray)\<bar>"
  have full: "fst (rayIntersect Epsilon aabbRayIntersect rayIntersectHavran fillIntersectionRecord
             ray (kd, stats)) \<noteq> None \<longleftrightarrow>
        (let lo = max nearT (Epsilon * max s Epsilon); hi = min farT (ray_maxt ray)
         in lo < hi \<and> rayIntersectHavran False kd ray lo hi \<noteq> None)"
    unfolding rayIntersect_def s_def [symmetric]
    by (simp add: dflt box Let_def max_def min_def not_less split: option.splits)
  have lite: "fst (rayIntersect_t Epsilon aabbRayIntersect rayIntersectHavran shapeFill ray
             (kd, stats)) \<noteq> None \<longleftrightarrow>
        (let lo = max nearT (Epsilon * s); hi = min farT (ray_maxt ray)
         in lo < hi \<and> rayIntersectHavran False kd ray lo hi \<noteq> None)"
    unfolding rayIntersect_t_def s_def [symmetric]
    by (simp add: dflt box Let_def max_def min_def not_less split_beta split: option.splits)
  have shadow: "fst (rayIntersect_shadow Epsilon aabbRayIntersect rayIntersectHavran ray
             (kd, stats)) \<longleftrightarrow>
        (let lo = max nearT (Epsilon * s); hi = min farT (ray_maxt ray)
         in lo < hi \<and> rayIntersectHavran True kd ray lo hi \<noteq> None)"
    unfolding rayIntersect_shadow_def s_def [symmetric]
    by (simp add: dflt box Let_def max_def min_def not_less split: option.splits)
  have zero: "ray_o ray = Vec3 0 0 0 \<longrightarrow>
        Epsilon * s = 0 \<and> Epsilon * max s Epsilon = Epsilon * Epsilon \<and> 0 < Epsilon * Epsilon"
    using pos by (simp add: s_def max_def)
  from full lite shadow zero show ?thesis unfolding s_def by blast
qed

theorem adaptive_epsilon_variants_witness:
  "0 < eps4 \<and> ray_mint originRay = eps4
   \<and> aabbClip (m_aabb originScene) originRay = Some (- 1, 1)
   \<and> ray_o originRay = Vec3 0 0 0
   \<and> fst (rayIntersect eps4 aabbClip (rayIntersectHavran_spec noTriangles)
            fillDistance originRay (originScene, zeroStats)) = None
   \<and> fst (rayIntersect_t eps4 aabbClip (rayIntersectHavran_spec noTriangles)
            flatShapeFill originRay
            (originScene, zeroStats)) \<noteq> None
   \<and> fst (rayIntersect_shadow eps4 aabbClip (rayIntersectHavran_spec noTriangles)
            originRay (originScene, zeroStats))"
proof -
  have pos: "0 < eps4" by (simp add: eps4_def)
  note t = adaptive_epsilon_variants [where Epsilon = eps4 and ray = originRay
        and aabbRayIntersect = aabbClip and kd = originScene
        and nearT = "- 1" and farT = 1
        and rayIntersectHavran = "rayIntersectHavran_spec noTriangles"
        and fillIntersectionRecord = fillDistance and stats = zeroStats
        and shapeFill = flatShapeFill,
      OF pos originRay_fields(2) originScene_clip]
  have a: "fst (rayIntersect eps4 aabbClip (rayIntersectHavran_spec noTriangles)
            fillDistance originRay (originScene, zeroStats)) = None"
    using t by (simp add: originScene_hit_iff originRay_fields Let_def eps4_def
                     del: not_None_eq)
  have b: "fst (rayIntersect_t eps4 aabbClip (rayIntersectHavran_spec noTriangles)
            flatShapeFill originRay
            (originScene, zeroStats)) \<noteq> None"
    using t by (simp add: originScene_hit_iff originRay_fields Let_def eps4_def
                     del: not_None_eq)
  have c: "fst (rayIntersect_shadow eps4 aabbClip (rayIntersectHavran_spec noTriangles)
            originRay (originScene, zeroStats))"
    using t by (simp add: originScene_hit_iff originRay_fields Let_def eps4_def
                     del: not_None_eq)
  show ?thesis
    using a b c pos originRay_fields originScene_clip by (simp del: not_None_eq)
qed

text \<open>
  Claim C3 demands that the occlusion query answers true exactly when the
  nearest-hit query finds a hit. In the scene with a surface \<open>5e-9\<close> above the world
  origin, the default-\<open>mint\<close> ray from the origin is reported occluded, while the
  nearest-hit query reports no hit: the occlusion query scales \<open>Epsilon\<close> by 0, the
  nearest-hit query by \<open>Epsilon\<close>.
\<close>

theorem occluded_without_hit_at_origin:
  "fst (rayIntersect_shadow eps4 aabbClip (rayIntersectHavran_spec noTriangles)
          originRay (originScene, zeroStats)) = True
   \<and> fst (rayIntersect eps4 aabbClip (rayIntersectHavran_spec noTriangles)
            fillDistance originRay (originScene, zeroStats)) = None"
proof
  show "fst (rayIntersect_shadow eps4 aabbClip (rayIntersectHavran_spec noTriangles)
          originRay (originScene, zeroStats)) = True"
    unfolding rayIntersect_shadow_def
    by (simp add: originScene_clip originRay_fields originScene_havran eps4_def)
  show "fst (rayIntersect eps4 aabbClip (rayIntersectHavran_spec noTriangles)
            fillDistance originRay (originScene, zeroStats)) = None"
    unfolding rayIntersect_def
    by (simp add: originScene_clip originRay_fields originScene_havran eps4_def)
qed

section \<open>Properties of the ellipsoid query\<close>

lemma leftP: "fillPositionsAndLocations (rootPositions (m_aabb splitScene)) (replicate 8 ETBD) 5 0 False
   = Inr ([[0, 0, 0], [5, 0, 0], [0, 10, 0], [5, 10, 0],
           [0, 0, 10], [5, 0, 10], [0, 10, 10], [5, 10, 10]], replicate 8 ETBD)"
  by (simp add: fillPositionsAndLocations_def cornerIndices_def rootPositions_def splitScene_def
        numeral_eq_Suc)

text \<open>
  Claim C4 says that a node is rejected when its own bounding box cannot overlap the
  ellipsoid's bounding box. The left child of the root of the split scene has the
  corners computed by \<open>fillPositionsAndLocations\<close>, which span \<open>[0,5] x [0,10] x [0,10]\<close>;
  this box is separated from the box \<open>[6,7]^3\<close> of the ellipsoid along x, and yet the
  test at that node answers true.
\<close>

theorem node_box_not_consulted:
  "fillPositionsAndLocations (rootPositions (m_aabb splitScene)) (replicate 8 ETBD) 5 0 False
     = Inr ([[0, 0, 0], [5, 0, 0], [0, 10, 0], [5, 10, 0],
             [0, 0, 10], [5, 0, 10], [0, 10, 10], [5, 10, 10]], replicate 8 ETBD)
   \<and> \<not> boxesOverlap
         (cornersBox [[0, 0, 0], [5, 0, 0], [0, 10, 0], [5, 10, 0],
                      [0, 0, 10], [5, 0, 10], [0, 10, 10], [5, 10, 10]])
         (e_aabb rightEllipsoid)
   \<and> isBoxCuttingEllipsoid splitScene rightEllipsoid
         [[0, 0, 0], [5, 0, 0], [0, 10, 0], [5, 10, 0],
          [0, 0, 10], [5, 0, 10], [0, 10, 10], [5, 10, 10]] (replicate 8 ETBD)"
proof -
  have a: "\<not> boxesOverlap
         (cornersBox [[0, 0, 0], [5, 0, 0], [0, 10, 0], [5, 10, 0],
                      [0, 0, 10], [5, 0, 10], [0, 10, 10], [5, 10, 10]])
         (e_aabb rightEllipsoid)"
    by (simp add: boxesOverlap_def cornersBox_def coordMin_def coordMax_def
          rightEllipsoid_def axisOf_def)
  have b: "isBoxCuttingEllipsoid splitScene rightEllipsoid
         [[0, 0, 0], [5, 0, 0], [0, 10, 0], [5, 10, 0],
          [0, 0, 10], [5, 0, 10], [0, 10, 10], [5, 10, 10]] (replicate 8 ETBD)"
    by (simp add: isBoxCuttingEllipsoid_def splitScene_def rightEllipsoid_def)
  from leftP a b show ?thesis by blast
qed

lemma isBoxCuttingEllipsoid_overlap:
  "isBoxCuttingEllipsoid kd e P L = boxesOverlap (m_aabb kd) (e_aabb e)"
  by (auto simp: isBoxCuttingEllipsoid_def boxesOverlap_def axisOf_def)

lemma rejected_returns:
  "\<not> isBoxCuttingEllipsoid kd e P L \<Longrightarrow>
   recursiveEllipsoidIntersect nextFloat nextSize ellipsoidIntersectTriangle kd node e val P L
     sampler = Inr (False, val, sampler, None)"
proof (cases node)
  case None
  then show ?thesis by simp
next
  case (Some n)
  assume "\<not> isBoxCuttingEllipsoid kd e P L"
  then show ?thesis using Some by (cases n) simp_all
qed

text \<open>
  Claim C4, amended. At every node the test compares the bounding box of the whole
  tree with the bounding box of the ellipsoid and ignores the corners and flags
  handed down: it answers true exactly when no axis separates the two boxes. It is
  conservative: whenever some point lies in the tree's box and in the ellipsoid's box
  it answers true. When it answers false, the recursion returns false at once and
  leaves \<open>value\<close> and the sampler untouched.
\<close>

theorem isBoxCuttingEllipsoid_tree_box:
  "isBoxCuttingEllipsoid kd e P L = boxesOverlap (m_aabb kd) (e_aabb e)
   \<and> (pointInBox p (m_aabb kd) \<and> pointInBox p (e_aabb e) \<longrightarrow> isBoxCuttingEllipsoid kd e P L)
   \<and> (\<not> isBoxCuttingEllipsoid kd e P L \<longrightarrow>
        recursiveEllipsoidIntersect nextFloat nextSize ellipsoidIntersectTriangle kd node e val
          P L sampler = Inr (False, val, sampler, None))"
proof -
  have "pointInBox p (m_aabb kd) \<and> pointInBox p (e_aabb e) \<longrightarrow> boxesOverlap (m_aabb kd) (e_aabb e)"
    by (auto simp: pointInBox_def boxesOverlap_def)
  then show ?thesis
    using isBoxCuttingEllipsoid_overlap [of kd e P L]
      rejected_returns [of kd e P L nextFloat nextSize ellipsoidIntersectTriangle node val sampler]
    by blast
qed

theorem isBoxCuttingEllipsoid_tree_box_witness:
  "pointInBox (Vec3 6 6 6) (m_aabb splitScene) \<and> pointInBox (Vec3 6 6 6) (e_aabb rightEllipsoid)
   \<and> isBoxCuttingEllipsoid splitScene rightEllipsoid [] []
   \<and> \<not> isBoxCuttingEllipsoid splitScene farEllipsoid [] []
   \<and> recursiveEllipsoidIntersect listNextFloat listNextSize testSucceeds splitScene
        (m_nodes splitScene) farEllipsoid 1 [] [] [1 / 4] = Inr (False, 1, [1 / 4], None)"
proof -
  have p: "pointInBox (Vec3 6 6 6) (m_aabb splitScene) \<and> pointInBox (Vec3 6 6 6) (e_aabb rightEllipsoid)"
    by (simp add: pointInBox_def splitScene_def rightEllipsoid_def axisOf_def)
  have q: "\<not> boxesOverlap (m_aabb splitScene) (e_aabb farEllipsoid)"
    by (simp add: boxesOverlap_def splitScene_def farEllipsoid_def axisOf_def)
  note t1 = isBoxCuttingEllipsoid_tree_box [of splitScene rightEllipsoid "[]" "[]" "Vec3 6 6 6"
      listNextFloat listNextSize testSucceeds "m_nodes splitScene" 1 "[1 / 4]"]
  note t2 = isBoxCuttingEllipsoid_tree_box [of splitScene farEllipsoid "[]" "[]" "Vec3 6 6 6"
      listNextFloat listNextSize testSucceeds "m_nodes splitScene" 1 "[1 / 4]"]
  have a: "isBoxCuttingEllipsoid splitScene rightEllipsoid [] []"
    by (rule t1 [THEN conjunct2, THEN conjunct1, THEN mp, OF p])
  have b1: "\<not> isBoxCuttingEllipsoid splitScene farEllipsoid [] []"
    unfolding t2 [THEN conjunct1] by (rule q)
  have b2: "recursiveEllipsoidIntersect listNextFloat listNextSize testSucceeds splitScene
        (m_nodes splitScene) farEllipsoid 1 [] [] [1 / 4] = Inr (False, 1, [1 / 4], None)"
    by (rule t2 [THEN conjunct2, THEN conjunct2, THEN mp, OF b1])
  from p a b1 b2 show ?thesis by simp
qed


text \<open>
  At every leaf that passes the box test: when the exact test of the picked
  primitive succeeds, the query returns the weight the test left, undivided; when
  it fails, the query returns false and the weight divided by the size of the leaf.
\<close>

lemma leaf_success_keeps_test_value:
  assumes "isBoxCuttingEllipsoid kd e P L"
    and "nextSize (nat ((int u - int l) mod 18446744073709551616)) sampler = (r, sampler1)"
    and "lookupTriAccel kd (l + r) = Inr ta"
    and "ellipsoidIntersectTriangle ta e val sampler1 = (True, val1, tempU, tempV, sampler2)"
  shows "recursiveEllipsoidIntersect nextFloat nextSize ellipsoidIntersectTriangle kd
           (Some (Leaf l u)) e val P L sampler =
         Inr (True, val1, sampler2,
              Some \<lparr>c_shapeIndex = shapeIndex ta, c_primIndex = primIndex ta,
                    c_u = tempU, c_v = tempV, c_shapeTemp = []\<rparr>)"
  using assms by simp

lemma leaf_failure_divides_value:
  assumes "isBoxCuttingEllipsoid kd e P L"
    and "nextSize (nat ((int u - int l) mod 18446744073709551616)) sampler = (r, sampler1)"
    and "lookupTriAccel kd (l + r) = Inr ta"
    and "ellipsoidIntersectTriangle ta e val sampler1 = (False, val1, tempU, tempV, sampler2)"
    and "u \<noteq> l"
  shows "recursiveEllipsoidIntersect nextFloat nextSize ellipsoidIntersectTriangle kd
           (Some (Leaf l u)) e val P L sampler =
         Inr (False, val1 / real_of_int (int u - int l), sampler2, None)"
  using assms by simp

text \<open>
  At a leaf with no primitives (\<open>u = l\<close>) the failing branch divides by zero: the
  source leaves a value that is not finite.
\<close>

lemma leaf_empty_failure:
  assumes "isBoxCuttingEllipsoid kd e P L"
    and "nextSize 0 sampler = (r, sampler1)"
    and "lookupTriAccel kd (l + r) = Inr ta"
    and "ellipsoidIntersectTriangle ta e val sampler1 = (False, val1, tempU, tempV, sampler2)"
  shows "recursiveEllipsoidIntersect nextFloat nextSize ellipsoidIntersectTriangle kd
           (Some (Leaf l l)) e val P L sampler = Inl NonFiniteValue"
  using assms by simp

lemma splitScene_lookup0: "lookupTriAccel splitScene 0 = Inr (sentinelRecord 0)"
  by (simp add: lookupTriAccel_def splitScene_def)

lemma splitScene_cut_left: "isBoxCuttingEllipsoid splitScene leftEllipsoid P L"
  by (simp add: isBoxCuttingEllipsoid_def splitScene_def leftEllipsoid_def)

text \<open>
  Claim C5 says that on success the returned weight has been divided by the number
  \<open>n\<close> of primitives of the leaf. At the leaf with the two primitives 0 and 1, with
  weight 1 and the draw that picks primitive 0: when the exact test succeeds the
  query returns true with weight 1; when it fails the query returns false with
  weight 1/2. From the root (the first draw descends left) the successful query
  returns weight 1/2, the halving of the inner node alone.
\<close>

theorem leaf_weight_divided_on_failure_only:
  "recursiveEllipsoidIntersect listNextFloat listNextSize testSucceeds splitScene
     (Some (Leaf 0 2)) leftEllipsoid 1 P L [1 / 4]
     = Inr (True, 1, [], Some \<lparr>c_shapeIndex = 0, c_primIndex = 0, c_u = 0, c_v = 0,
                               c_shapeTemp = []\<rparr>)
   \<and> recursiveEllipsoidIntersect listNextFloat listNextSize testFails splitScene
     (Some (Leaf 0 2)) leftEllipsoid 1 P L [1 / 4]
     = Inr (False, 1 / 2, [], None)
   \<and> ellipsoidIntersect listNextFloat listNextSize testSucceeds fillCache
       splitScene leftEllipsoid 1 originRay [1 / 4, 1 / 4]
     = Inr (True, 1 / 2, [], Some \<lparr>c_shapeIndex = 0, c_primIndex = 0, c_u = 0, c_v = 0,
                               c_shapeTemp = []\<rparr>)"
proof -
  have draw: "listNextSize 2 [1 / 4] = (0, [])"
    by (simp add: listNextSize_def)
  have rec0: "sentinelRecord 0 = \<lparr>ta_k = KNoTriangleFlag, ta_coeffs = [], shapeIndex = 0, primIndex = 0\<rparr>"
    by (simp add: sentinelRecord_def zeroTriAccel_def)
  have a: "recursiveEllipsoidIntersect listNextFloat listNextSize testSucceeds splitScene
     (Some (Leaf 0 2)) leftEllipsoid 1 P L [1 / 4]
     = Inr (True, 1, [], Some \<lparr>c_shapeIndex = 0, c_primIndex = 0, c_u = 0, c_v = 0,
                               c_shapeTemp = []\<rparr>)" for P L
    by (simp add: splitScene_cut_left draw splitScene_lookup0 testSucceeds_def rec0)
  have b: "recursiveEllipsoidIntersect listNextFloat listNextSize testFails splitScene
     (Some (Leaf 0 2)) leftEllipsoid 1 P L [1 / 4]
     = Inr (False, 1 / 2, [], None)"
    by (simp add: splitScene_cut_left draw splitScene_lookup0 testFails_def)
  have nodes: "m_nodes splitScene = Some (Inner 0 5 (Leaf 0 2) (Leaf 2 3))"
    by (simp add: splitScene_def)
  have fl: "listNextFloat [1 / 4, 1 / 4] = (1 / 4, [1 / 4])"
    by (simp add: listNextFloat_def)
  have fp: "\<exists>PNew LNew. fillPositionsAndLocations P L 5 0 False = Inr (PNew, LNew)" for P L
    by (simp add: fillPositionsAndLocations_def cornerIndices_def split_beta)
  obtain PNew LNew where fp': "fillPositionsAndLocations (rootPositions (m_aabb splitScene))
       (replicate 8 ETBD) 5 0 False = Inr (PNew, LNew)"
    using fp by blast
  have c: "ellipsoidIntersect listNextFloat listNextSize testSucceeds fillCache
       splitScene leftEllipsoid 1 originRay [1 / 4, 1 / 4]
     = Inr (True, 1 / 2, [], Some \<lparr>c_shapeIndex = 0, c_primIndex = 0, c_u = 0, c_v = 0,
                               c_shapeTemp = []\<rparr>)"
    unfolding ellipsoidIntersect_def nodes
    by (simp add: splitScene_cut_left fl fp' draw splitScene_lookup0 testSucceeds_def rec0
          fillCache_def)
  from a b c show ?thesis by simp
qed

section \<open>Properties of the packet queries\<close>

subsection \<open>Lanes\<close>









subsection \<open>The loop over the lanes for a sentinel record\<close>




subsection \<open>A leaf, lane by lane\<close>







subsection \<open>The traversal, lane by lane\<close>













subsection \<open>The nodes the coherent traversal visits\<close>











subsection \<open>The incoherent path and the scalar query\<close>





subsection \<open>The scenes\<close>


























subsection \<open>Claim C1\<close>





subsection \<open>Claim C9\<close>







section \<open>What the queries write\<close>

lemma snd_rayIntersect:
  "snd (rayIntersect Epsilon aabbRayIntersect rayIntersectHavran fillIntersectionRecord ray
          (kd, stats))
     = (kd, stats\<lparr>raysTraced := raysTraced stats + 1\<rparr>)"
proof -
  define s where "s = max (max (max \<bar>vx (ray_o ray)\<bar> \<bar>vy (ray_o ray)\<bar>)
                                                 \<bar>vz (ray_o ray)\<bar>) Epsilon"
  show ?thesis
    unfolding rayIntersect_def s_def [symmetric]
    by (simp add: Let_def split: option.splits)
qed

lemma snd_rayIntersect_t:
  "snd (rayIntersect_t Epsilon aabbRayIntersect rayIntersectHavran shapeFill ray (kd, stats))
     = (kd, stats\<lparr>shadowRaysTraced := shadowRaysTraced stats + 1\<rparr>)"
proof -
  define s where "s = max (max \<bar>vx (ray_o ray)\<bar> \<bar>vy (ray_o ray)\<bar>) \<bar>vz (ray_o ray)\<bar>"
  show ?thesis
    unfolding rayIntersect_t_def s_def [symmetric]
    by (simp add: Let_def split_beta split: option.splits)
qed

lemma snd_rayIntersect_shadow:
  "snd (rayIntersect_shadow Epsilon aabbRayIntersect rayIntersectHavran ray (kd, stats))
     = (kd, stats\<lparr>shadowRaysTraced := shadowRaysTraced stats + 1\<rparr>)"
proof -
  define s where "s = max (max \<bar>vx (ray_o ray)\<bar> \<bar>vy (ray_o ray)\<bar>) \<bar>vz (ray_o ray)\<bar>"
  show ?thesis
    unfolding rayIntersect_shadow_def s_def [symmetric]
    by (simp add: Let_def split: option.splits)
qed

lemma snd_rayIntersectPacket:
  "case rayIntersectPacket triPacket aabbRayIntersectPacket om_eps op_eps defaultRay
              packet rayInterval its temp (kd, stats) of
         Inl err \<Rightarrow> True
       | Inr (res, w') \<Rightarrow> w' = (kd, stats\<lparr>coherentPackets := coherentPackets stats + 1\<rparr>)"
  by (simp add: rayIntersectPacket_def Let_def split: option.splits sum.splits)

text \<open>
  Claim C6 says that a query writes nothing that callers share. The nearest-hit
  query on the scene above the origin leaves the shared counter of traced rays at
  1, from 0.
\<close>

theorem query_increments_shared_counter:
  "raysTraced zeroStats = 0
   \<and> raysTraced (snd (snd (rayIntersect eps4 aabbClip (rayIntersectHavran_spec noTriangles)
         fillDistance originRay (originScene, zeroStats)))) = 1"
  unfolding snd_rayIntersect by (simp add: zeroStats_def)

text \<open>
  Claim C6, amended. Each of the five queries returns the kd-tree object (nodes,
  index buffer, accelerator table, shape map, shapes, bounding box) as it was and
  adds one to exactly one of the shared statistics counters: \<open>raysTraced\<close> for the
  nearest-hit query, \<open>shadowRaysTraced\<close> for the lightweight variant and the
  occlusion query, \<open>coherentPackets\<close> and \<open>incoherentPackets\<close> for the packet queries.
\<close>

theorem queries_leave_tree_and_count:
  "snd (rayIntersect Epsilon aabbRayIntersect rayIntersectHavran fillIntersectionRecord ray
          (kd, stats))
     = (kd, stats\<lparr>raysTraced := raysTraced stats + 1\<rparr>)
   \<and> snd (rayIntersect_t Epsilon aabbRayIntersect rayIntersectHavran shapeFill ray (kd, stats))
     = (kd, stats\<lparr>shadowRaysTraced := shadowRaysTraced stats + 1\<rparr>)
   \<and> snd (rayIntersect_shadow Epsilon aabbRayIntersect rayIntersectHavran ray (kd, stats))
     = (kd, stats\<lparr>shadowRaysTraced := shadowRaysTraced stats + 1\<rparr>)
   \<and> (case rayIntersectPacket triPacket aabbRayIntersectPacket om_eps op_eps defaultRay
              packet rayInterval its temp (kd, stats) of
         Inl err \<Rightarrow> True
       | Inr (res, w') \<Rightarrow> w' = (kd, stats\<lparr>coherentPackets := coherentPackets stats + 1\<rparr>))
   \<and> snd (rayIntersectPacketIncoherent rayIntersectHavran defaultRay packet rayInterval its temp
            (kd, stats))
     = (kd, stats\<lparr>incoherentPackets := incoherentPackets stats + 1\<rparr>)"
  by (simp add: snd_rayIntersect snd_rayIntersect_t snd_rayIntersect_shadow
        snd_rayIntersectPacket rayIntersectPacketIncoherent_def)

end
